theory Spec2Isabelle
  imports Main
begin

section \<open>JavaScript values\<close>

text \<open>
  A JavaScript number that the client computes with is an integer or NaN
  (\<open>parseInt\<close> yields nothing else): \<open>None\<close> is NaN. Every comparison with NaN is
  false, every sum with NaN is NaN. Doubles are exact on the integers up to \<open>2^53\<close>,
  and the times the client adds and subtracts stay below that bound; \<open>parseInt\<close>
  rounds a longer run of digits to the nearest double. The overflow of a run of more
  than 308 digits to \<open>Infinity\<close> is not modelled.
\<close>

type_synonym number = "int option"

definition num_lt :: "number \<Rightarrow> number \<Rightarrow> bool" where
  "num_lt a b = (case (a, b) of (Some x, Some y) \<Rightarrow> x < y | _ \<Rightarrow> False)"

definition num_gt :: "number \<Rightarrow> number \<Rightarrow> bool" where
  "num_gt a b = (case (a, b) of (Some x, Some y) \<Rightarrow> x > y | _ \<Rightarrow> False)"

definition num_add :: "number \<Rightarrow> number \<Rightarrow> number" where
  "num_add a b = (case (a, b) of (Some x, Some y) \<Rightarrow> Some (x + y) | _ \<Rightarrow> None)"

definition num_sub :: "number \<Rightarrow> number \<Rightarrow> number" where
  "num_sub a b = (case (a, b) of (Some x, Some y) \<Rightarrow> Some (x - y) | _ \<Rightarrow> None)"

definition num_mul :: "number \<Rightarrow> number \<Rightarrow> number" where
  "num_mul a b = (case (a, b) of (Some x, Some y) \<Rightarrow> Some (x * y) | _ \<Rightarrow> None)"

text \<open>\<open>Math.max\<close> and \<open>Math.min\<close>: NaN as soon as one argument is NaN.\<close>

definition Math_max :: "number \<Rightarrow> number \<Rightarrow> number" where
  "Math_max a b = (case (a, b) of (Some x, Some y) \<Rightarrow> Some (max x y) | _ \<Rightarrow> None)"

definition Math_min :: "number \<Rightarrow> number \<Rightarrow> number" where
  "Math_min a b = (case (a, b) of (Some x, Some y) \<Rightarrow> Some (min x y) | _ \<Rightarrow> None)"

text \<open>A string, \<open>null\<close> or \<open>undefined\<close> in a condition: only a non-empty string is truthy.\<close>

definition truthy :: "string option \<Rightarrow> bool" where
  "truthy v = (case v of None \<Rightarrow> False | Some s \<Rightarrow> s \<noteq> [])"

text \<open>
  \<open>parseInt(s, 10)\<close>: leading white space is skipped, one sign is read, then the
  longest run of decimal digits; no digit at all gives NaN. The strings parsed are
  header values, whose characters are code points below 256: of these, the white space
  of JavaScript is tab, line feed, vertical tab, form feed, carriage return, space and
  the no-break space \<open>0xA0\<close>.
\<close>

definition isWhiteSpace :: "char \<Rightarrow> bool" where
  "isWhiteSpace c =
     (c \<in> set [CHR '' '', CHR 0x09, CHR 0x0A, CHR 0x0B, CHR 0x0C, CHR 0x0D, CHR 0xA0])"

definition isDigit :: "char \<Rightarrow> bool" where
  "isDigit c = (48 \<le> (of_char c :: nat) \<and> (of_char c :: nat) \<le> 57)"

fun digits_value :: "int \<Rightarrow> string \<Rightarrow> int" where
  "digits_value acc [] = acc"
| "digits_value acc (c # cs) = digits_value (acc * 10 + (int (of_char c) - 48)) cs"

text \<open>
  The double nearest to an integer: the number of bits of a natural number, its
  rounding to the multiple of \<open>2^e\<close> nearest to it, ties to the even quotient, and
  the rounding of an integer to 53 significant bits.
\<close>

function bit_length :: "nat \<Rightarrow> nat" where
  "bit_length n = (if n = 0 then 0 else Suc (bit_length (n div 2)))"
  by pat_completeness auto
termination
  by (relation "measure id") auto

declare bit_length.simps [simp del]

definition round_at :: "nat \<Rightarrow> nat \<Rightarrow> nat" where
  "round_at n e =
     (n div 2 ^ e +
      (if n mod 2 ^ e > 2 ^ (e - 1) \<or> (n mod 2 ^ e = 2 ^ (e - 1) \<and> odd (n div 2 ^ e))
       then 1 else 0)) * 2 ^ e"

definition to_double :: "int \<Rightarrow> int" where
  "to_double z =
     (if bit_length (nat (abs z)) \<le> 53 then z
      else (if z < 0 then - 1 else 1) *
           int (round_at (nat (abs z)) (bit_length (nat (abs z)) - 53)))"

definition parseInt :: "string \<Rightarrow> number" where
  "parseInt s =
     (let t = dropWhile isWhiteSpace s;
          neg = (case t of [] \<Rightarrow> False | c # _ \<Rightarrow> c = CHR ''-'');
          u = (case t of [] \<Rightarrow> [] | c # r \<Rightarrow> if c = CHR ''-'' \<or> c = CHR ''+'' then r else t);
          ds = takeWhile isDigit u
      in if ds = [] then None
         else Some (to_double ((if neg then - 1 else 1) * digits_value 0 ds)))"

text \<open>
  \<open>new Date(v)\<close> keeps the time value \<open>v\<close> in milliseconds; NaN and values beyond
  \<open>8.64e15\<close> give an invalid date, whose \<open>getTime()\<close> is NaN. The model of a
  \<open>Date\<close> is its time value.
\<close>

definition new_Date :: "number \<Rightarrow> number" where
  "new_Date v = (case v of None \<Rightarrow> None
                 | Some t \<Rightarrow> if abs t > 8640000000000000 then None else Some t)"

section \<open>Rate tracker\<close>

text \<open>
  \<open>interface RateLimitInfo\<close>. \<open>resetTime\<close> is \<open>Date | null\<close>: \<open>None\<close> is \<open>null\<close>,
  \<open>Some t\<close> a date with time value \<open>t\<close>.
\<close>

record RateLimitInfo =
  remaining :: number
  resetTime :: "number option"
  limit :: number

definition initialRateLimit :: RateLimitInfo where
  "initialRateLimit = \<lparr>remaining = Some 2000, resetTime = None, limit = Some 2000\<rparr>"

definition DEFAULT_DELAY :: int where
  "DEFAULT_DELAY = 1000"

definition MAX_RETRIES :: nat where
  "MAX_RETRIES = 3"

text \<open>
  \<open>Headers.get\<close>: the value of a header, \<open>None\<close> for \<open>null\<close> when the header is
  absent. A header sent with an empty value is present and reads as the empty string.
\<close>

type_synonym headers = "string \<Rightarrow> string option"

text \<open>\<open>updateRateLimitFromHeaders\<close>; the log line it prints is not part of the state.\<close>

definition updateRateLimitFromHeaders :: "headers \<Rightarrow> RateLimitInfo \<Rightarrow> RateLimitInfo" where
  "updateRateLimitFromHeaders hs rl =
     (let remaining_h = hs ''ratelimit-remaining'';
          resetTime_h = hs ''ratelimit-reset'';
          limit_h = hs ''ratelimit-limit'';
          rl1 = (if truthy remaining_h
                 then rl\<lparr>remaining := parseInt (the remaining_h)\<rparr> else rl);
          rl2 = (if truthy resetTime_h
                 then rl1\<lparr>resetTime :=
                        Some (new_Date (num_mul (parseInt (the resetTime_h)) (Some 1000)))\<rparr>
                 else rl1);
          rl3 = (if truthy limit_h
                 then rl2\<lparr>limit := parseInt (the limit_h)\<rparr> else rl2)
      in rl3)"

section \<open>Governed HTTP client\<close>

text \<open>
  \<open>RequestInit\<close> as the callers use it: an optional method and a list of headers.
  The environment holds the token and the API base URL; the analytics binding
  \<open>CLOUDFLARE_ANALYTICS\<close>, when bound, is given by whether \<open>writeDataPoint\<close> on an
  index with some doubles succeeds (it throws otherwise); the blob store \<open>DOCS_BUCKET\<close>, when bound, answers a \<open>get\<close> by key (it
  throws, finds nothing, or gives an object with its body), and the queue \<open>MY_QUEUE\<close>,
  when bound, is \<open>Some ok\<close> where \<open>ok\<close> says whether \<open>send\<close> succeeds.
\<close>

record RequestInit =
  method_opt :: "string option"
  headers_opt :: "(string \<times> string) list"

definition no_options :: RequestInit where
  "no_options = \<lparr>method_opt = None, headers_opt = []\<rparr>"

datatype r2_get = R2Throws | R2Missing | R2Object string

record Env =
  GITLAB_TOKEN :: "string option"
  GITLAB_API_BASE_URL :: "string option"
  CLOUDFLARE_ANALYTICS :: "(string \<Rightarrow> int list \<Rightarrow> bool) option"
  DOCS_BUCKET :: "(string \<Rightarrow> r2_get) option"
  MY_QUEUE :: "bool option"

text \<open>
  One hit of the blob search as \<open>searchFileByName\<close> reads it (\<open>item: any\<close>): each
  field may be missing (\<open>None\<close> is \<open>undefined\<close>).
\<close>

record search_item =
  item_filename :: "string option"
  item_path :: "string option"
  item_project_id :: "int option"
  item_ref :: "string option"

text \<open>
  A response: status, headers, what \<open>text()\<close> gives (\<open>None\<close>: reading the body
  fails and \<open>text()\<close> rejects), and what \<open>json()\<close> gives when the body is read as
  an array of search hits (\<open>None\<close>: \<open>json()\<close> rejects, or the value is no array
  of objects).
\<close>

record Response =
  status :: int
  resp_headers :: headers
  body_text :: "string option"
  body_json :: "search_item list option"

definition ok :: "Response \<Rightarrow> bool" where
  "ok r = (200 \<le> status r \<and> status r \<le> 299)"

text \<open>
  What one \<open>fetch\<close> does: it rejects (a network failure, no response at all) or it
  resolves with a response. The network is an oracle that gives the outcome of the
  \<open>n\<close>-th \<open>fetch\<close> of the process.
\<close>

datatype fetch_outcome = Rejects | Resolves Response

type_synonym network = "nat \<Rightarrow> fetch_outcome"

text \<open>
  The observable effects, in order: timers, outbound calls (URL, the caller's options,
  the headers sent) and analytics data points (index and doubles; the blobs, built by
  \<open>extractRepoContextFromUrl\<close>, are left out).
\<close>

datatype event =
    SetTimeout number
  | FetchCall string RequestInit "(string \<times> string) list"
  | WriteDataPoint string "int list"

text \<open>
  The state of the module and of the world it runs in: the module-level
  \<open>apiRateLimit\<close>, the clock \<open>Date.now()\<close> in milliseconds, the number of \<open>fetch\<close>
  calls issued so far, and the trace of effects (latest last). The clock moves in timers
  only.
\<close>

record client_state =
  apiRateLimit :: RateLimitInfo
  now :: int
  fetches :: nat
  trace :: "event list"

definition emit :: "event \<Rightarrow> client_state \<Rightarrow> client_state" where
  "emit e w = w\<lparr>trace := trace w @ [e]\<rparr>"

text \<open>
  \<open>await new Promise((resolve) => setTimeout(resolve, ms))\<close>: the suspension is
  recorded with the delay asked for; a NaN or negative delay fires at once.
\<close>

definition setTimeout :: "number \<Rightarrow> client_state \<Rightarrow> client_state" where
  "setTimeout ms w =
     (emit (SetTimeout ms) w)\<lparr>now := now w + (case ms of None \<Rightarrow> 0 | Some d \<Rightarrow> max 0 d)\<rparr>"

definition respectRateLimits :: "client_state \<Rightarrow> client_state" where
  "respectRateLimits w =
     (if num_lt (remaining (apiRateLimit w)) (Some 5) \<and> resetTime (apiRateLimit w) \<noteq> None
      then
        (let timeUntilReset = num_sub (the (resetTime (apiRateLimit w))) (Some (now w))
         in if num_gt timeUntilReset (Some 0)
            then setTimeout (Math_min (num_add timeUntilReset (Some 1000)) (Some 60000)) w
            else w)
      else setTimeout (Some DEFAULT_DELAY) w)"

definition USER_AGENT :: string where
  "USER_AGENT = ''Mozilla/5.0 (Macintosh; Intel Mac OS X 10_15_7) AppleWebKit/537.36 (KHTML, like Gecko) Chrome/135.0.0.0 Safari/537.36''"

subsection \<open>Request headers\<close>

text \<open>
  A \<open>Headers\<close> object is a list of names and values. Names compare without regard
  to case; values are stored without their leading and trailing HTTP white space. A
  name that is no HTTP token, or a value with a NUL, a line feed or a carriage return
  in it, makes \<open>new Headers\<close>, \<open>append\<close> and \<open>set\<close> throw a \<open>TypeError\<close>.
\<close>

definition lower :: "char \<Rightarrow> char" where
  "lower c =
     (let n = (of_char c :: nat) in if 65 \<le> n \<and> n \<le> 90 then char_of (n + 32) else c)"

definition same_name :: "string \<Rightarrow> string \<Rightarrow> bool" where
  "same_name a b = (map lower a = map lower b)"

definition tchar :: "char \<Rightarrow> bool" where
  "tchar c =
     (let n = (of_char c :: nat)
      in (65 \<le> n \<and> n \<le> 90) \<or> (97 \<le> n \<and> n \<le> 122) \<or> (48 \<le> n \<and> n \<le> 57) \<or>
         n \<in> set [33, 35, 36, 37, 38, 39, 42, 43, 45, 46, 94, 95, 96, 124, 126])"

definition valid_header_name :: "string \<Rightarrow> bool" where
  "valid_header_name name = (name \<noteq> [] \<and> list_all tchar name)"

definition http_whitespace :: "char \<Rightarrow> bool" where
  "http_whitespace c = (c \<in> set [CHR 0x09, CHR 0x0A, CHR 0x0D, CHR 0x20])"

definition normalize_value :: "string \<Rightarrow> string" where
  "normalize_value v = rev (dropWhile http_whitespace (rev (dropWhile http_whitespace v)))"

definition valid_header_value :: "string \<Rightarrow> bool" where
  "valid_header_value v =
     list_all (\<lambda>c. c \<notin> set [CHR 0x00, CHR 0x0A, CHR 0x0D]) (normalize_value v)"

fun headers_append :: "string \<Rightarrow> string \<Rightarrow> (string \<times> string) list \<Rightarrow> (string \<times> string) list" where
  "headers_append name v [] = [(name, normalize_value v)]"
| "headers_append name v ((name', v') # hs) =
     (if same_name name' name then (name', v' @ '', '' @ normalize_value v) # hs
      else (name', v') # headers_append name v hs)"

fun headers_set :: "string \<Rightarrow> string \<Rightarrow> (string \<times> string) list \<Rightarrow> (string \<times> string) list" where
  "headers_set name v [] = [(name, normalize_value v)]"
| "headers_set name v ((name', v') # hs) =
     (if same_name name' name
      then (name, normalize_value v) # filter (\<lambda>(n, _). \<not> same_name n name) hs
      else (name', v') # headers_set name v hs)"

definition new_Headers :: "(string \<times> string) list \<Rightarrow> (string \<times> string) list" where
  "new_Headers init = foldl (\<lambda>hs (name, v). headers_append name v hs) [] init"

text \<open>
  The headers of the outbound call, as the \<open>try\<close> block builds them:
  \<open>new Headers(options.headers || {})\<close>, then \<open>set\<close> for \<open>Accept\<close>, \<open>User-Agent\<close> and,
  under \<open>useAuth && env.GITLAB_TOKEN\<close>, for \<open>PRIVATE-TOKEN\<close>.
\<close>

definition request_headers :: "RequestInit \<Rightarrow> Env \<Rightarrow> bool \<Rightarrow> (string \<times> string) list" where
  "request_headers options env useAuth =
     (let h1 = headers_set ''Accept'' ''application/json'' (new_Headers (headers_opt options));
          h2 = headers_set ''User-Agent'' USER_AGENT h1
      in if useAuth \<and> truthy (GITLAB_TOKEN env)
         then headers_set ''PRIVATE-TOKEN'' (the (GITLAB_TOKEN env)) h2
         else h2)"

text \<open>Whether building these headers throws: at \<open>new Headers\<close>, or at the \<open>set\<close> of the token.\<close>

definition headers_throw :: "RequestInit \<Rightarrow> Env \<Rightarrow> bool \<Rightarrow> bool" where
  "headers_throw options env useAuth =
     (\<not> list_all (\<lambda>(name, v). valid_header_name name \<and> valid_header_value v)
          (headers_opt options) \<or>
      (useAuth \<and> truthy (GITLAB_TOKEN env) \<and> \<not> valid_header_value (the (GITLAB_TOKEN env))))"

text \<open>Whether \<open>env.CLOUDFLARE_ANALYTICS.writeDataPoint\<close> throws; without a binding it is not called.\<close>

definition writeDataPoint_throws :: "Env \<Rightarrow> string \<Rightarrow> int list \<Rightarrow> bool" where
  "writeDataPoint_throws env index doubles =
     (case CLOUDFLARE_ANALYTICS env of
        None \<Rightarrow> False
      | Some write \<Rightarrow> \<not> write index doubles)"

text \<open>
  The wait before the retry of a throttled call:
  \<open>resetTime ? Math.max(1000, resetTime.getTime() - Date.now() + 1000) : 60000\<close>.
\<close>

definition waitTime :: "client_state \<Rightarrow> number" where
  "waitTime w =
     (case resetTime (apiRateLimit w) of
        None \<Rightarrow> Some 60000
      | Some t \<Rightarrow> Math_max (Some 1000) (num_add (num_sub t (Some (now w))) (Some 1000)))"

subsection \<open>\<open>gitlabApiRequest\<close>\<close>

text \<open>
  How one pass through the \<open>try\<close> block ends: something in it throws and control goes
  to \<open>catch\<close>; a response with status 429 has been received, its body read and the
  data point written; or a response with another status is returned.
\<close>

datatype attempt = Thrown | Throttled Response | Responded Response

text \<open>
  The \<open>try\<close> block of \<open>gitlabApiRequest\<close>, up to the decision to retry, with the state
  in which it ends. In the order of the source, an exception can come from the first
  \<open>writeDataPoint\<close>, from building the headers, from \<open>fetch\<close> (the network failure),
  and on a 429 from \<open>response.text()\<close> and from the second \<open>writeDataPoint\<close>.
  \<open>extractRepoContextFromUrl\<close> catches its own exceptions.
\<close>

definition try_block ::
  "network \<Rightarrow> string \<Rightarrow> RequestInit \<Rightarrow> Env \<Rightarrow> nat \<Rightarrow> bool \<Rightarrow> client_state
     \<Rightarrow> attempt \<times> client_state" where
  "try_block net url options env retryCount useAuth w =
     (if retryCount = 0 \<and> writeDataPoint_throws env ''gitlab_api_request'' [1]
      then (Thrown, w)
      else
        (let w1 = (if CLOUDFLARE_ANALYTICS env \<noteq> None \<and> retryCount = 0
                   then emit (WriteDataPoint ''gitlab_api_request'' [1]) w else w);
             w2 = respectRateLimits w1
         in if headers_throw options env useAuth then (Thrown, w2)
            else
              (let w3 = (emit (FetchCall url options (request_headers options env useAuth)) w2)
                          \<lparr>fetches := Suc (fetches w2)\<rparr>
               in case net (fetches w2) of
                    Rejects \<Rightarrow> (Thrown, w3)
                  | Resolves response \<Rightarrow>
                      (let w4 = w3\<lparr>apiRateLimit :=
                                   updateRateLimitFromHeaders (resp_headers response)
                                     (apiRateLimit w3)\<rparr>
                       in if status response = 429
                          then
                            (if body_text response = None then (Thrown, w4)
                             else if writeDataPoint_throws env ''gitlab_rate_limited_request''
                                       [1, int retryCount]
                             then (Thrown, w4)
                             else
                               (Throttled response,
                                if CLOUDFLARE_ANALYTICS env \<noteq> None
                                then emit (WriteDataPoint ''gitlab_rate_limited_request''
                                             [1, int retryCount]) w4
                                else w4))
                          else (Responded response, w4)))))"

text \<open>
  \<open>gitlabApiRequest\<close>: the \<open>try\<close> block, then the retry of a throttled call, the
  \<open>return response\<close>, or the \<open>catch\<close> block. Both retries are written in the source as
  \<open>gitlabApiRequest(url, options, env, retryCount + 1)\<close>: the fifth parameter is left
  to its default, \<open>true\<close>.
\<close>

function gitlabApiRequest ::
  "network \<Rightarrow> string \<Rightarrow> RequestInit \<Rightarrow> Env \<Rightarrow> nat \<Rightarrow> bool \<Rightarrow> client_state
     \<Rightarrow> Response option \<times> client_state" where
  "gitlabApiRequest net url options env retryCount useAuth w =
     (let (a, v) = try_block net url options env retryCount useAuth w
      in case a of
           Responded response \<Rightarrow> (Some response, v)
         | Throttled response \<Rightarrow>
             if retryCount < MAX_RETRIES
             then gitlabApiRequest net url options env (retryCount + 1) True
                    (setTimeout (waitTime v) v)
             else (Some response, v)
         | Thrown \<Rightarrow>
             if retryCount < MAX_RETRIES
             then gitlabApiRequest net url options env (retryCount + 1) True
                    (setTimeout (Some 2000) v)
             else (None, v))"
  by pat_completeness auto
termination
  by (relation "measure (\<lambda>(net, url, options, env, retryCount, useAuth, w).
                  MAX_RETRIES - retryCount)") auto

declare gitlabApiRequest.simps [simp del]

subsection \<open>URLs\<close>

text \<open>\<open>String.prototype.replace\<close> with a string pattern: the first occurrence only.\<close>

fun replace_first :: "string \<Rightarrow> string \<Rightarrow> string \<Rightarrow> string" where
  "replace_first pat rep [] = (if pat = [] then rep else [])"
| "replace_first pat rep (c # cs) =
     (if take (length pat) (c # cs) = pat then rep @ drop (length pat) (c # cs)
      else c # replace_first pat rep cs)"

text \<open>\<open>String.prototype.split\<close> with a one-character separator; never empty.\<close>

fun split :: "char \<Rightarrow> string \<Rightarrow> string list" where
  "split d [] = [[]]"
| "split d (c # cs) =
     (if c = d then [] # split d cs
      else (case split d cs of [] \<Rightarrow> [[c]] | x # xs \<Rightarrow> (c # x) # xs))"

text \<open>\<open>Array.prototype.pop\<close> as an expression: the last element, \<open>undefined\<close> on \<open>[]\<close>.\<close>

definition pop :: "'a list \<Rightarrow> 'a option" where
  "pop xs = (if xs = [] then None else Some (last xs))"

text \<open>
  \<open>encodeURIComponent\<close> on a string of bytes: every byte outside
  \<open>A-Z a-z 0-9 - _ . ! ~ * ' ( )\<close> becomes \<open>%XX\<close>.
\<close>

definition unreserved :: "char \<Rightarrow> bool" where
  "unreserved c =
     (let n = (of_char c :: nat)
      in (65 \<le> n \<and> n \<le> 90) \<or> (97 \<le> n \<and> n \<le> 122) \<or> (48 \<le> n \<and> n \<le> 57) \<or>
         c \<in> set [CHR ''-'', CHR ''_'', CHR ''.'', CHR ''!'', CHR ''~'', CHR ''*'', CHR 0x27,
                   CHR ''('', CHR '')''])"

definition hex_digit :: "nat \<Rightarrow> char" where
  "hex_digit n = ''0123456789ABCDEF'' ! (n mod 16)"

definition encodeURIComponent :: "string \<Rightarrow> string" where
  "encodeURIComponent s =
     concat (map (\<lambda>c. if unreserved c then [c]
                       else [CHR ''%'', hex_digit ((of_char c :: nat) div 16),
                             hex_digit ((of_char c :: nat) mod 16)]) s)"

definition getGitLabApiBaseUrl :: "Env \<Rightarrow> string" where
  "getGitLabApiBaseUrl env =
     (if truthy (GITLAB_API_BASE_URL env) then the (GITLAB_API_BASE_URL env)
      else ''https://gitlab.com/api/v4'')"

definition getGitLabBaseUrl :: "Env \<Rightarrow> string" where
  "getGitLabBaseUrl env = replace_first ''/api/v4'' [] (getGitLabApiBaseUrl env)"

definition encodeProjectPath :: "string \<Rightarrow> string \<Rightarrow> string" where
  "encodeProjectPath namespace project = encodeURIComponent (namespace @ ''/'' @ project)"

text \<open>\<open>constructGitlabUrl\<close>; every caller passes the environment.\<close>

definition constructGitlabUrl :: "string \<Rightarrow> string \<Rightarrow> string \<Rightarrow> string \<Rightarrow> Env \<Rightarrow> string" where
  "constructGitlabUrl namespace project branch path env =
     getGitLabBaseUrl env @ ''/'' @ namespace @ ''/'' @ project @ ''/-/raw/'' @ branch @ ''/'' @ path"

subsection \<open>Search by file name, raw files\<close>

text \<open>A value in a template literal: \<open>undefined\<close> prints as such.\<close>

definition str :: "string option \<Rightarrow> string" where
  "str v = (case v of None \<Rightarrow> ''undefined'' | Some s \<Rightarrow> s)"

text \<open>\<open>a || b\<close> on strings that may be missing.\<close>

definition or_else :: "string option \<Rightarrow> string option \<Rightarrow> string option" where
  "or_else a b = (if truthy a then a else b)"

record search_hit =
  hit_path :: "string option"
  html_url :: "string option"
  full_name :: string

record search_result =
  total_count :: nat
  items :: "search_hit list"

datatype exn = BodyError

text \<open>\<open>item.filename || item.path?.split('/').pop()\<close>\<close>

definition itemFilename :: "search_item \<Rightarrow> string option" where
  "itemFilename item =
     or_else (item_filename item)
       (case item_path item of None \<Rightarrow> None | Some p \<Rightarrow> pop (split CHR ''/'' p))"

definition to_hit :: "Env \<Rightarrow> string \<Rightarrow> string \<Rightarrow> search_item \<Rightarrow> search_hit" where
  "to_hit env namespace project item =
     \<lparr>hit_path = or_else (item_path item) (item_filename item),
      html_url =
        (case item_project_id item of
           None \<Rightarrow> None
         | Some n \<Rightarrow>
             if n = 0 then None
             else Some (getGitLabBaseUrl env @ ''/'' @ namespace @ ''/'' @ project @ ''/-/blob/'' @
                        str (or_else (item_ref item) (Some ''main'')) @ ''/'' @
                        str (or_else (item_path item) (item_filename item)))),
      full_name = namespace @ ''/'' @ project\<rparr>"

text \<open>
  \<open>searchFileByName\<close>. A body that \<open>json()\<close> cannot read makes the function throw
  (\<open>Inl\<close>); a missing or unsuccessful response gives \<open>null\<close> (\<open>Inr None\<close>).
\<close>

definition searchFileByName ::
  "network \<Rightarrow> string \<Rightarrow> string \<Rightarrow> string \<Rightarrow> Env \<Rightarrow> client_state
     \<Rightarrow> (exn + search_result option) \<times> client_state" where
  "searchFileByName net filename namespace project env w =
     (let baseUrl = getGitLabApiBaseUrl env;
          projectPath = encodeProjectPath namespace project;
          searchUrl = baseUrl @ ''/projects/'' @ projectPath @ ''/search?scope=blobs&search='' @
                      encodeURIComponent filename;
          (response, w') = gitlabApiRequest net searchUrl no_options env 0 True w
      in case response of
           None \<Rightarrow> (Inr None, w')
         | Some r \<Rightarrow>
             if \<not> ok r then (Inr None, w')
             else (case body_json r of
                     None \<Rightarrow> (Inl BodyError, w')
                   | Some results \<Rightarrow>
                       (let exactMatches = filter (\<lambda>item. itemFilename item = Some filename) results
                        in (Inr (Some \<lparr>total_count = length exactMatches,
                                         items = map (to_hit env namespace project) exactMatches\<rparr>),
                            w'))))"

text \<open>
  \<open>fetchRawFile\<close>, and \<open>fetchFileFromGitLab\<close> which only forwards to it. When the
  body of a successful response cannot be read, \<open>response.text()\<close> rejects and the
  exception goes to the caller (\<open>Inl\<close>).
\<close>

definition fetchRawFile ::
  "network \<Rightarrow> string \<Rightarrow> string \<Rightarrow> string \<Rightarrow> string \<Rightarrow> Env \<Rightarrow> bool \<Rightarrow> client_state
     \<Rightarrow> (exn + string option) \<times> client_state" where
  "fetchRawFile net namespace project branch path env useAuth w =
     (let url = constructGitlabUrl namespace project branch path env;
          (response, w') = gitlabApiRequest net url no_options env 0 useAuth w
      in case response of
           None \<Rightarrow> (Inr None, w')
         | Some r \<Rightarrow>
             if \<not> ok r then (Inr None, w')
             else (case body_text r of
                     None \<Rightarrow> (Inl BodyError, w')
                   | Some t \<Rightarrow> (Inr (Some t), w')))"

definition fetchFileFromGitLab ::
  "network \<Rightarrow> string \<Rightarrow> string \<Rightarrow> string \<Rightarrow> string \<Rightarrow> Env \<Rightarrow> bool \<Rightarrow> client_state
     \<Rightarrow> (exn + string option) \<times> client_state" where
  "fetchFileFromGitLab net namespace project branch path env useAuth w =
     fetchRawFile net namespace project branch path env useAuth w"

section \<open>Document resolver\<close>

datatype UrlType = Subdomain | Gitlab | Unknown

record RepoData =
  namespace :: "string option"
  project :: "string option"
  host :: string
  urlType :: UrlType

text \<open>One element \<open>{ type: "text", text }\<close> of a result's content.\<close>

datatype content_item = Text string

record FetchDocumentationResult =
  fileUsed :: string
  content :: "content_item list"

record GitLabFile =
  file_path :: string
  file_content :: string

record RobotsResult =
  robots_content :: "string option"
  blockedByRobots :: bool

text \<open>The message that \<open>enqueueDocumentationProcessing\<close> sends, before \<open>JSON.stringify\<close>.\<close>

record queue_message =
  msg_namespace :: string
  msg_project :: string
  repo_url :: string
  file_url :: string
  content_length :: "nat option"
  file_used :: string
  docs_branch :: string

text \<open>
  What the resolver awaits and does not compute itself. \<open>getRepoBranch\<close> and
  \<open>searchGitLabRepo\<close> (utils/gitlab.ts) catch every exception in their own bodies and
  always return a value; \<open>fetchFileFromGitLab\<close> returns the text of the file or \<open>null\<close>;
  \<open>fetchFileWithRobotsTxtCheck\<close> and \<open>htmlToMd\<close> are external (\<open>htmlToMd\<close> may
  throw: \<open>None\<close>). Each is given by its result on the arguments it is called with;
  \<open>cache_put_ok\<close> says whether the write to the key-value store succeeds.
\<close>

record callees =
  getRepoBranch_res :: "string \<Rightarrow> string \<Rightarrow> string"
  fetchFileFromGitLab_res :: "string \<Rightarrow> string \<Rightarrow> string \<Rightarrow> string \<Rightarrow> string option"
  searchGitLabRepo_res :: "string \<Rightarrow> string \<Rightarrow> string \<Rightarrow> string \<Rightarrow> GitLabFile option"
  fetchFileWithRobotsTxtCheck_res :: "string \<Rightarrow> RobotsResult"
  htmlToMd_res :: "string \<Rightarrow> string option"
  cache_put_ok :: bool

text \<open>The calls the resolver makes, in order, with their arguments.\<close>

datatype call =
    GetCachedFetchDocResult string string
  | FetchFileWithRobotsTxtCheck string
  | GetRepoBranch string string
  | FetchFileFromGitLab string string string string
  | SearchGitLabRepo string string string string
  | FetchFileFromR2 string string string
  | QueueSend queue_message
  | CacheFetchDocResult string string FetchDocumentationResult int

text \<open>The calls that go to the GitLab API through the governed client.\<close>

fun upstream :: "call \<Rightarrow> bool" where
  "upstream (GetRepoBranch _ _) = True"
| "upstream (FetchFileFromGitLab _ _ _ _) = True"
| "upstream (SearchGitLabRepo _ _ _ _) = True"
| "upstream _ = False"

fun dispatch :: "call \<Rightarrow> bool" where
  "dispatch (QueueSend _) = True"
| "dispatch _ = False"

fun cache_write :: "call \<Rightarrow> bool" where
  "cache_write (CacheFetchDocResult _ _ _ _) = True"
| "cache_write _ = False"

record CacheEntry =
  entry_value :: FetchDocumentationResult
  expiresAt :: int

text \<open>
  The state the resolver runs in: the content cache (a key-value store on the pair
  of namespace and project), the clock in milliseconds, and the calls made so far
  (latest last).
\<close>

record resolver_state =
  content_cache :: "string \<times> string \<Rightarrow> CacheEntry option"
  clock :: int
  calls :: "call list"

definition called :: "call \<Rightarrow> resolver_state \<Rightarrow> resolver_state" where
  "called c w = w\<lparr>calls := calls w @ [c]\<rparr>"

text \<open>
  Modelled from the spec: \<open>getCachedFetchDocResult\<close> and \<open>cacheFetchDocResult\<close>
  (utils/cache.js) are not among the sources. The spec (4.3, 3): \<open>get(key)\<close> gives the
  entry or nothing, an entry whose time to live is exceeded counts as absent (the check
  is made at read time only); \<open>put(key, value, ttl)\<close> stores
  \<open>{ value, expiresAt }\<close>; keys are the pair of namespace and project. The time to
  live is in seconds.
\<close>

definition getCachedFetchDocResult ::
  "string \<Rightarrow> string \<Rightarrow> resolver_state \<Rightarrow> FetchDocumentationResult option" where
  "getCachedFetchDocResult ns p w =
     (case content_cache w (ns, p) of
        None \<Rightarrow> None
      | Some e \<Rightarrow> if clock w < expiresAt e then Some (entry_value e) else None)"

definition cacheFetchDocResult ::
  "string \<Rightarrow> string \<Rightarrow> FetchDocumentationResult \<Rightarrow> int \<Rightarrow> resolver_state \<Rightarrow> resolver_state" where
  "cacheFetchDocResult ns p result ttl w =
     w\<lparr>content_cache := (content_cache w)
          ((ns, p) \<mapsto> \<lparr>entry_value = result, expiresAt = clock w + ttl * 1000\<rparr>)\<rparr>"

text \<open>\<open>fetchFileFromR2\<close> (utils/r2.ts): every failure of the store is caught.\<close>

definition fetchFileFromR2 :: "string \<Rightarrow> string \<Rightarrow> string \<Rightarrow> Env \<Rightarrow> string option" where
  "fetchFileFromR2 ns p filename env =
     (if ns \<noteq> [] \<and> p \<noteq> [] \<and> DOCS_BUCKET env \<noteq> None
      then (case the (DOCS_BUCKET env) (ns @ ''/'' @ p @ ''/'' @ filename) of
              R2Object body \<Rightarrow> Some body
            | R2Missing \<Rightarrow> None
            | R2Throws \<Rightarrow> None)
      else None)"

text \<open>
  \<open>enqueueDocumentationProcessing\<close>: with a queue bound the message is sent, and a
  failing \<open>send\<close> is caught; without one nothing is sent.
\<close>

definition enqueueDocumentationProcessing ::
  "string \<Rightarrow> string \<Rightarrow> string option \<Rightarrow> string \<Rightarrow> string \<Rightarrow> string \<Rightarrow> Env
     \<Rightarrow> resolver_state \<Rightarrow> resolver_state" where
  "enqueueDocumentationProcessing ns p content_v fileUsed_v docsPath docsBranch env w =
     (case MY_QUEUE env of
        None \<Rightarrow> w
      | Some _ \<Rightarrow>
          called (QueueSend
            \<lparr>msg_namespace = ns, msg_project = p,
             repo_url = ''https://gitlab.com/'' @ ns @ ''/'' @ p,
             file_url = docsPath,
             content_length = map_option length content_v,
             file_used = fileUsed_v,
             docs_branch = docsBranch\<rparr>) w)"

text \<open>The local variables of \<open>fetchDocumentation\<close>.\<close>

record locals =
  l_fileUsed :: string
  l_content :: "string option"
  l_docsPath :: string
  l_docsBranch :: string
  l_blockedByRobots :: bool

definition initial_locals :: locals where
  "initial_locals =
     \<lparr>l_fileUsed = ''unknown'', l_content = None, l_docsPath = [], l_docsBranch = [],
      l_blockedByRobots = False\<rparr>"

text \<open>A value in a template literal: \<open>null\<close> prints as such.\<close>

definition str_null :: "string option \<Rightarrow> string" where
  "str_null v = (case v of None \<Rightarrow> ''null'' | Some s \<Rightarrow> s)"

subsection \<open>The branch for \<open>urlType === "subdomain"\<close>\<close>

definition ROBOTS_MESSAGE :: string where
  "ROBOTS_MESSAGE = ''Access to this GitLab Pages site is restricted by robots.txt. GitMCP respects robots.txt directives.''"

definition subdomainBranch ::
  "callees \<Rightarrow> RepoData \<Rightarrow> locals \<times> resolver_state \<Rightarrow> locals \<times> resolver_state" where
  "subdomainBranch cs repoData lw =
     (let (l, w) = lw;
          gitlabIoDomain = str_null (namespace repoData) @ ''.gitlab.io'';
          pathWithSlash = (if truthy (project repoData) then ''/'' @ the (project repoData) else []);
          baseURL = ''https://'' @ gitlabIoDomain @ pathWithSlash @ ''/'';
          llmsResult = fetchFileWithRobotsTxtCheck_res cs (baseURL @ ''llms.txt'');
          w1 = called (FetchFileWithRobotsTxtCheck (baseURL @ ''llms.txt'')) w;
          (l4, w4) =
            (if blockedByRobots llmsResult then (l\<lparr>l_blockedByRobots := True\<rparr>, w1)
             else if truthy (robots_content llmsResult)
             then (l\<lparr>l_content := robots_content llmsResult, l_fileUsed := ''llms.txt''\<rparr>, w1)
             else
               (let indexResult = fetchFileWithRobotsTxtCheck_res cs baseURL;
                    w2 = called (FetchFileWithRobotsTxtCheck baseURL) w1;
                    l2 = (if blockedByRobots indexResult then l\<lparr>l_blockedByRobots := True\<rparr>
                          else if truthy (robots_content indexResult)
                          then (case htmlToMd_res cs (the (robots_content indexResult)) of
                                  None \<Rightarrow> l
                                | Some md \<Rightarrow>
                                    l\<lparr>l_content := Some md,
                                      l_fileUsed := ''landing page (index.html, converted to Markdown)''\<rparr>)
                          else l)
                in if \<not> truthy (l_content l2) \<and> \<not> l_blockedByRobots l2
                   then
                     (let readmeResult = fetchFileWithRobotsTxtCheck_res cs (baseURL @ ''README.md'');
                          w3 = called (FetchFileWithRobotsTxtCheck (baseURL @ ''README.md'')) w2
                      in if blockedByRobots readmeResult then (l2\<lparr>l_blockedByRobots := True\<rparr>, w3)
                         else if truthy (robots_content readmeResult)
                         then (l2\<lparr>l_content := robots_content readmeResult,
                                  l_fileUsed := ''README.md''\<rparr>, w3)
                         else (l2, w3))
                   else (l2, w2)))
      in if l_blockedByRobots l4
         then (l4\<lparr>l_content := Some ROBOTS_MESSAGE, l_fileUsed := ''robots.txt restriction''\<rparr>, w4)
         else (l4, w4))"

subsection \<open>The branch for \<open>urlType === "gitlab"\<close>\<close>

definition possibleLocations :: "string list" where
  "possibleLocations = [''docs/docs/llms.txt'', ''llms.txt'', ''docs/llms.txt'']"

text \<open>One element of \<open>results\<close>, what \<open>Promise.all\<close> resolves to.\<close>

record probe_result =
  pr_content :: "string option"
  pr_location :: string
  pr_branch :: string

text \<open>
  The fetches are started in the order of \<open>possibleLocations\<close>, and \<open>Promise.all\<close>
  gives their results in that order whichever completes first.
\<close>

definition probe :: "callees \<Rightarrow> string \<Rightarrow> string \<Rightarrow> string \<Rightarrow> string list \<Rightarrow> probe_result list" where
  "probe cs ns p docsBranch locations =
     map (\<lambda>location. \<lparr>pr_content = fetchFileFromGitLab_res cs ns p docsBranch location,
                       pr_location = location, pr_branch = docsBranch\<rparr>) locations"

text \<open>\<open>results.find((r) => r.location === location && r.content !== null)\<close>\<close>

definition find_result :: "probe_result list \<Rightarrow> string \<Rightarrow> probe_result option" where
  "find_result results location =
     List.find (\<lambda>r. pr_location r = location \<and> pr_content r \<noteq> None) results"

text \<open>The loop \<open>for (const location of possibleLocations)\<close>, left by \<open>break\<close> at the first hit.\<close>

fun scanLocations :: "probe_result list \<Rightarrow> string list \<Rightarrow> probe_result option" where
  "scanLocations results [] = None"
| "scanLocations results (location # rest) =
     (case find_result results location of
        Some mainResult \<Rightarrow> Some mainResult
      | None \<Rightarrow> scanLocations results rest)"

definition gitlabBranch ::
  "callees \<Rightarrow> Env \<Rightarrow> string \<Rightarrow> string \<Rightarrow> locals \<times> resolver_state \<Rightarrow> locals \<times> resolver_state" where
  "gitlabBranch cs env ns p lw =
     (let (l, w) = lw;
          docsBranch = getRepoBranch_res cs ns p;
          w1 = called (GetRepoBranch ns p) w;
          l1 = l\<lparr>l_docsBranch := docsBranch\<rparr>;
          results = probe cs ns p docsBranch possibleLocations;
          w2 = foldl (\<lambda>v location. called (FetchFileFromGitLab ns p docsBranch location) v)
                 w1 possibleLocations;
          l2 = (case scanLocations results possibleLocations of
                  None \<Rightarrow> l1
                | Some mainResult \<Rightarrow>
                    l1\<lparr>l_content := pr_content mainResult, l_fileUsed := ''llms.txt'',
                       l_docsPath := constructGitlabUrl ns p (pr_branch mainResult)
                                       (pr_location mainResult) env\<rparr>);
          (l3, w3) =
            (if \<not> truthy (l_content l2)
             then (case searchGitLabRepo_res cs ns p ''llms.txt'' docsBranch of
                     None \<Rightarrow> (l2, called (SearchGitLabRepo ns p ''llms.txt'' docsBranch) w2)
                   | Some result \<Rightarrow>
                       (l2\<lparr>l_content := Some (file_content result),
                           l_docsPath := file_path result, l_fileUsed := ''llms.txt''\<rparr>,
                        called (SearchGitLabRepo ns p ''llms.txt'' docsBranch) w2))
             else (l2, w2));
          (l4, w4) =
            (if \<not> truthy (l_content l3)
             then (let c = fetchFileFromR2 ns p ''llms.txt'' env;
                       v = called (FetchFileFromR2 ns p ''llms.txt'') w3
                   in if truthy c
                      then (l3\<lparr>l_content := c, l_fileUsed := ''llms.txt (generated)''\<rparr>, v)
                      else (l3\<lparr>l_content := c\<rparr>, v))
             else (l3, w3))
      in if \<not> truthy (l_content l4)
         then
           (let (l5, w5) =
                  (if l_docsBranch l4 = []
                   then (l4\<lparr>l_docsBranch := getRepoBranch_res cs ns p\<rparr>,
                         called (GetRepoBranch ns p) w4)
                   else (l4, w4));
                w6 = called (SearchGitLabRepo ns p ''README+path:/'' (l_docsBranch l5)) w5
            in case searchGitLabRepo_res cs ns p ''README+path:/'' (l_docsBranch l5) of
                 None \<Rightarrow> (l5, w6)
               | Some readmeResult \<Rightarrow>
                   (let filename =
                          (if truthy (pop (split CHR ''/'' (file_path readmeResult)))
                           then the (pop (split CHR ''/'' (file_path readmeResult)))
                           else file_path readmeResult)
                    in (l5\<lparr>l_content := Some (file_content readmeResult),
                           l_fileUsed := filename,
                           l_docsPath := constructGitlabUrl ns p (l_docsBranch l5)
                                           (file_path readmeResult) env\<rparr>, w6)))
         else (l4, w4))"

subsection \<open>\<open>fetchDocumentation\<close>\<close>

definition cacheTTL :: int where
  "cacheTTL = 30 * 60"

definition NO_DOCUMENTATION :: string where
  "NO_DOCUMENTATION = ''No documentation found.''"

text \<open>
  The cascade: the locals after the branch chosen by \<open>urlType\<close>, before anything is
  enqueued or returned.
\<close>

definition cascade ::
  "callees \<Rightarrow> Env \<Rightarrow> RepoData \<Rightarrow> resolver_state \<Rightarrow> locals \<times> resolver_state" where
  "cascade cs env repoData w =
     (if urlType repoData = Subdomain then subdomainBranch cs repoData (initial_locals, w)
      else if urlType repoData = Gitlab \<and> truthy (namespace repoData) \<and> truthy (project repoData)
      then gitlabBranch cs env (the (namespace repoData)) (the (project repoData))
             (initial_locals, w)
      else (initial_locals, w))"

text \<open>
  \<open>fetchDocumentation\<close>. Both \<open>ctx.waitUntil\<close> tasks are run where they are scheduled;
  a failing write to the cache is caught and changes nothing.
\<close>

definition fetchDocumentation ::
  "callees \<Rightarrow> Env \<Rightarrow> RepoData \<Rightarrow> resolver_state
     \<Rightarrow> FetchDocumentationResult \<times> resolver_state" where
  "fetchDocumentation cs env repoData w =
     (let both = truthy (namespace repoData) \<and> truthy (project repoData);
          ns = the (namespace repoData);
          p = the (project repoData);
          cachedResult = (if both then getCachedFetchDocResult ns p w else None);
          w0 = (if both then called (GetCachedFetchDocResult ns p) w else w)
      in case cachedResult of
           Some cached \<Rightarrow> (cached, w0)
         | None \<Rightarrow>
             (let (l, w1) = cascade cs env repoData w0;
                  w2 = (if both
                        then enqueueDocumentationProcessing ns p (l_content l) (l_fileUsed l)
                               (l_docsPath l) (l_docsBranch l) env w1
                        else w1)
              in if \<not> truthy (l_content l)
                 then (\<lparr>fileUsed = l_fileUsed l, content = [Text NO_DOCUMENTATION]\<rparr>, w2)
                 else
                   (let result = \<lparr>fileUsed = l_fileUsed l,
                                  content = [Text (the (l_content l))]\<rparr>;
                        w3 = (if both
                              then (let v = called (CacheFetchDocResult ns p result cacheTTL) w2
                                    in if cache_put_ok cs
                                       then cacheFetchDocResult ns p result cacheTTL v else v)
                              else w2)
                    in (result, w3))))"

section \<open>Vocabulary of the statements\<close>

text \<open>
  The states of one attempt of \<open>gitlabApiRequest\<close>: after the call is issued, after
  the response headers are observed, after a throttled response is counted.
\<close>

definition issued ::
  "string \<Rightarrow> RequestInit \<Rightarrow> Env \<Rightarrow> nat \<Rightarrow> bool \<Rightarrow> client_state \<Rightarrow> client_state" where
  "issued url options env retryCount useAuth w =
     (emit (FetchCall url options (request_headers options env useAuth))
        (respectRateLimits
           (if CLOUDFLARE_ANALYTICS env \<noteq> None \<and> retryCount = 0
            then emit (WriteDataPoint ''gitlab_api_request'' [1]) w else w)))
       \<lparr>fetches := Suc (fetches w)\<rparr>"

definition observed :: "Response \<Rightarrow> client_state \<Rightarrow> client_state" where
  "observed r w =
     w\<lparr>apiRateLimit := updateRateLimitFromHeaders (resp_headers r) (apiRateLimit w)\<rparr>"

definition throttled :: "Env \<Rightarrow> nat \<Rightarrow> client_state \<Rightarrow> client_state" where
  "throttled env retryCount w =
     (if CLOUDFLARE_ANALYTICS env \<noteq> None
      then emit (WriteDataPoint ''gitlab_rate_limited_request'' [1, int retryCount]) w
      else w)"

text \<open>
  How an attempt ends, read off the inputs alone: the options, the environment, the
  retry counter and the auth flag of the attempt, and the outcome \<open>net f\<close> of the fetch
  it would issue. An attempt that throws before its fetch issues none.
\<close>

definition throws_before_fetch :: "RequestInit \<Rightarrow> Env \<Rightarrow> nat \<Rightarrow> bool \<Rightarrow> bool" where
  "throws_before_fetch options env retryCount useAuth =
     ((retryCount = 0 \<and> writeDataPoint_throws env ''gitlab_api_request'' [1]) \<or>
      headers_throw options env useAuth)"

definition attempt_of :: "network \<Rightarrow> RequestInit \<Rightarrow> Env \<Rightarrow> nat \<Rightarrow> bool \<Rightarrow> nat \<Rightarrow> attempt" where
  "attempt_of net options env retryCount useAuth f =
     (if throws_before_fetch options env retryCount useAuth then Thrown
      else (case net f of
              Rejects \<Rightarrow> Thrown
            | Resolves r \<Rightarrow>
                if status r = 429
                then (if body_text r = None \<or>
                         writeDataPoint_throws env ''gitlab_rate_limited_request''
                           [1, int retryCount]
                      then Thrown else Throttled r)
                else Responded r))"

definition next_fetch :: "RequestInit \<Rightarrow> Env \<Rightarrow> nat \<Rightarrow> bool \<Rightarrow> nat \<Rightarrow> nat" where
  "next_fetch options env retryCount useAuth f =
     (if throws_before_fetch options env retryCount useAuth then f else Suc f)"

text \<open>
  The \<open>n\<close>-th attempt after the one made with counter \<open>retryCount\<close>, flag \<open>useAuth\<close>
  and \<open>f\<close> fetches issued before it, were all of them made: each later attempt has the
  counter incremented and the flag \<open>true\<close>.
\<close>

fun nth_attempt ::
  "network \<Rightarrow> RequestInit \<Rightarrow> Env \<Rightarrow> nat \<Rightarrow> bool \<Rightarrow> nat \<Rightarrow> nat \<Rightarrow> attempt" where
  "nth_attempt net options env retryCount useAuth f 0 =
     attempt_of net options env retryCount useAuth f"
| "nth_attempt net options env retryCount useAuth f (Suc n) =
     nth_attempt net options env (Suc retryCount) True
       (next_fetch options env retryCount useAuth f) n"

text \<open>An attempt after which the client tries again while retries remain.\<close>

definition retried :: "attempt \<Rightarrow> bool" where
  "retried a = (case a of Responded _ \<Rightarrow> False | _ \<Rightarrow> True)"

text \<open>The part of a path after its last \<open>/\<close>, the whole path when it has none.\<close>

definition basename :: "string \<Rightarrow> string" where
  "basename pth = rev (takeWhile (\<lambda>c. c \<noteq> CHR ''/'') (rev pth))"

text \<open>A network given by its first outcomes; every later call fails.\<close>

definition net_of :: "fetch_outcome list \<Rightarrow> network" where
  "net_of xs n = (if n < length xs then xs ! n else Rejects)"

text \<open>The state of a fresh process at time \<open>t\<close>, and small inputs for the examples.\<close>

definition fresh :: "int \<Rightarrow> client_state" where
  "fresh t = \<lparr>apiRateLimit = initialRateLimit, now = t, fetches = 0, trace = []\<rparr>"

definition env_with_token :: "string \<Rightarrow> Env" where
  "env_with_token tok =
     \<lparr>GITLAB_TOKEN = Some tok, GITLAB_API_BASE_URL = None, CLOUDFLARE_ANALYTICS = None,
      DOCS_BUCKET = None, MY_QUEUE = None\<rparr>"

definition plain_response :: "int \<Rightarrow> string \<Rightarrow> Response" where
  "plain_response s body =
     \<lparr>status = s, resp_headers = Map.empty, body_text = Some body, body_json = None\<rparr>"

text \<open>
  The selection of the static-path probe in the words of the specification: the first
  entry of the ordered list whose fetched content is non-empty.
\<close>

definition spec_first_nonempty :: "probe_result list \<Rightarrow> string list \<Rightarrow> string option" where
  "spec_first_nonempty results locations =
     List.find (\<lambda>location. \<exists>r \<in> set results. pr_location r = location \<and> truthy (pr_content r))
       locations"

text \<open>The calls made by a run that starts in \<open>w\<close> and ends in \<open>w'\<close>.\<close>

definition new_calls :: "resolver_state \<Rightarrow> resolver_state \<Rightarrow> call list" where
  "new_calls w w' = drop (length (calls w)) (calls w')"

text \<open>A repository without any documentation, and the initial state of the resolver.\<close>

definition nothing_found :: callees where
  "nothing_found =
     \<lparr>getRepoBranch_res = (\<lambda>ns p. ''main''),
      fetchFileFromGitLab_res = (\<lambda>ns p branch path. None),
      searchGitLabRepo_res = (\<lambda>ns p filename branch. None),
      fetchFileWithRobotsTxtCheck_res = (\<lambda>url. \<lparr>robots_content = None, blockedByRobots = False\<rparr>),
      htmlToMd_res = (\<lambda>html. Some html),
      cache_put_ok = True\<rparr>"

text \<open>
  A repository in which \<open>docs/docs/llms.txt\<close> is an empty file and \<open>llms.txt\<close> has
  content, with nothing else to be found.
\<close>

definition empty_first_file :: callees where
  "empty_first_file =
     nothing_found\<lparr>fetchFileFromGitLab_res :=
       (\<lambda>ns p branch path.
          if path = ''docs/docs/llms.txt'' then Some []
          else if path = ''llms.txt'' then Some ''# Docs''
          else None)\<rparr>"

definition gitlab_repo :: "string \<Rightarrow> string \<Rightarrow> RepoData" where
  "gitlab_repo ns p =
     \<lparr>namespace = Some ns, project = Some p, host = ''gitmcp.io'', urlType = Gitlab\<rparr>"

definition empty_store :: "int \<Rightarrow> resolver_state" where
  "empty_store t = \<lparr>content_cache = Map.empty, clock = t, calls = []\<rparr>"

text \<open>
  What a part of the resolver does to the state: it leaves the content cache alone and
  appends calls, none of which writes the cache or sends to the queue.
\<close>

definition quiet :: "resolver_state \<Rightarrow> resolver_state \<Rightarrow> bool" where
  "quiet w w' \<longleftrightarrow>
     content_cache w' = content_cache w \<and> clock w' = clock w \<and>
     (\<exists>ys. calls w' = calls w @ ys \<and> filter cache_write ys = [] \<and> filter dispatch ys = [])"

section \<open>The rate tracker\<close>

lemma fetches_emit [simp]: "fetches (emit e w) = fetches w"
  by (simp add: emit_def)

lemma fetches_setTimeout [simp]: "fetches (setTimeout ms w) = fetches w"
  by (simp add: setTimeout_def)

lemma fetches_respectRateLimits [simp]: "fetches (respectRateLimits w) = fetches w"
  by (simp add: respectRateLimits_def Let_def)

lemma fetches_issued [simp]:
  "fetches (issued url options env retryCount useAuth w) = Suc (fetches w)"
  by (simp add: issued_def)

lemma fetches_observed [simp]: "fetches (observed r w) = fetches w"
  by (simp add: observed_def)

lemma fetches_throttled [simp]: "fetches (throttled env retryCount w) = fetches w"
  by (simp add: throttled_def)

lemma update_remaining:
  "remaining (updateRateLimitFromHeaders hs rl) =
     (case hs ''ratelimit-remaining'' of
        None \<Rightarrow> remaining rl
      | Some v \<Rightarrow> if v = [] then remaining rl else parseInt v)"
  by (simp add: updateRateLimitFromHeaders_def Let_def truthy_def split: option.splits)

lemma update_resetTime:
  "resetTime (updateRateLimitFromHeaders hs rl) =
     (case hs ''ratelimit-reset'' of
        None \<Rightarrow> resetTime rl
      | Some v \<Rightarrow> if v = [] then resetTime rl
                  else Some (new_Date (num_mul (parseInt v) (Some 1000))))"
  by (simp add: updateRateLimitFromHeaders_def Let_def truthy_def split: option.splits)

lemma update_limit:
  "limit (updateRateLimitFromHeaders hs rl) =
     (case hs ''ratelimit-limit'' of
        None \<Rightarrow> limit rl
      | Some v \<Rightarrow> if v = [] then limit rl else parseInt v)"
  by (simp add: updateRateLimitFromHeaders_def Let_def truthy_def split: option.splits)

lemma update_twice:
  "updateRateLimitFromHeaders hs (updateRateLimitFromHeaders hs rl) =
   updateRateLimitFromHeaders hs rl"
  by (simp add: updateRateLimitFromHeaders_def Let_def)

text \<open>
  C7, as amended. \<open>updateRateLimitFromHeaders\<close> sets each of \<open>remaining\<close>,
  \<open>resetTime\<close> and \<open>limit\<close> from its header exactly when that header is present with a
  non-empty value (to \<open>parseInt\<close> of the value, the reset time as a date of that many
  seconds), and leaves the field as it was when the header is absent or empty; applying
  it twice with the same headers gives the same state as applying it once.
\<close>

theorem updateRateLimitFromHeaders_frame:
  "remaining (updateRateLimitFromHeaders hs rl) =
     (case hs ''ratelimit-remaining'' of
        None \<Rightarrow> remaining rl
      | Some v \<Rightarrow> if v = [] then remaining rl else parseInt v) \<and>
   resetTime (updateRateLimitFromHeaders hs rl) =
     (case hs ''ratelimit-reset'' of
        None \<Rightarrow> resetTime rl
      | Some v \<Rightarrow> if v = [] then resetTime rl
                  else Some (new_Date (num_mul (parseInt v) (Some 1000)))) \<and>
   limit (updateRateLimitFromHeaders hs rl) =
     (case hs ''ratelimit-limit'' of
        None \<Rightarrow> limit rl
      | Some v \<Rightarrow> if v = [] then limit rl else parseInt v) \<and>
   updateRateLimitFromHeaders hs (updateRateLimitFromHeaders hs rl) =
     updateRateLimitFromHeaders hs rl"
  using update_remaining update_resetTime update_limit update_twice by blast

theorem updateRateLimitFromHeaders_frame_witness:
  "updateRateLimitFromHeaders
     (Map.empty(''ratelimit-remaining'' \<mapsto> ''7'', ''ratelimit-reset'' \<mapsto> ''12''))
     initialRateLimit =
   \<lparr>remaining = Some 7, resetTime = Some (Some 12000), limit = Some 2000\<rparr>"
proof -
  let ?hs = "Map.empty(''ratelimit-remaining'' \<mapsto> ''7'', ''ratelimit-reset'' \<mapsto> ''12'')"
  have p7: "parseInt ''7'' = Some 7" by code_simp
  have p12: "parseInt ''12'' = Some 12" by code_simp
  have "remaining (updateRateLimitFromHeaders ?hs initialRateLimit) = Some 7 \<and>
        resetTime (updateRateLimitFromHeaders ?hs initialRateLimit) = Some (Some 12000) \<and>
        limit (updateRateLimitFromHeaders ?hs initialRateLimit) = Some 2000"
    using updateRateLimitFromHeaders_frame [of ?hs initialRateLimit] p7 p12
    by (simp add: initialRateLimit_def new_Date_def num_mul_def)
  then show ?thesis by (cases "updateRateLimitFromHeaders ?hs initialRateLimit") simp
qed

text \<open>
  C7, as stated, fails: a \<open>ratelimit-remaining\<close> header that is present with an empty
  value does not update \<open>remaining\<close> (which would become NaN, \<open>parseInt\<close> of the empty
  string); the state is left as it was.
\<close>

theorem updateRateLimitFromHeaders_empty_header_counterexample:
  "(Map.empty(''ratelimit-remaining'' \<mapsto> [])) ''ratelimit-remaining'' = Some [] \<and>
   remaining (updateRateLimitFromHeaders (Map.empty(''ratelimit-remaining'' \<mapsto> []))
                initialRateLimit) = remaining initialRateLimit \<and>
   remaining (updateRateLimitFromHeaders (Map.empty(''ratelimit-remaining'' \<mapsto> []))
                initialRateLimit) \<noteq> parseInt []"
  by (simp add: updateRateLimitFromHeaders_def truthy_def initialRateLimit_def parseInt_def)

text \<open>
  C6, at the failing input. With \<open>remaining = 3\<close> and a reset time that lies in the
  past (\<open>resetTime\<close> 1000, \<open>Date.now()\<close> 5000), \<open>respectRateLimits\<close> sets no timer at
  all: the state, trace and clock included, is unchanged, where the claim has a
  suspension of 1000 ms.
\<close>

theorem respectRateLimits_stale_reset_no_delay:
  "respectRateLimits
     \<lparr>apiRateLimit = \<lparr>remaining = Some 3, resetTime = Some (Some 1000), limit = Some 2000\<rparr>,
      now = 5000, fetches = 0, trace = []\<rparr> =
   \<lparr>apiRateLimit = \<lparr>remaining = Some 3, resetTime = Some (Some 1000), limit = Some 2000\<rparr>,
    now = 5000, fetches = 0, trace = []\<rparr>"
  by (simp add: respectRateLimits_def num_lt_def num_gt_def num_sub_def)

section \<open>The governed client\<close>

lemma try_block_attempt:
  "fst (try_block net url options env retryCount useAuth w) =
   attempt_of net options env retryCount useAuth (fetches w)"
  by (simp add: try_block_def attempt_of_def throws_before_fetch_def Let_def
           split: fetch_outcome.splits)

lemma try_block_fetches:
  "fetches (snd (try_block net url options env retryCount useAuth w)) =
   next_fetch options env retryCount useAuth (fetches w)"
  by (simp add: try_block_def next_fetch_def throws_before_fetch_def Let_def
           split: fetch_outcome.splits)

lemma try_block_rejects:
  "\<not> throws_before_fetch options env retryCount useAuth \<Longrightarrow> net (fetches w) = Rejects \<Longrightarrow>
   try_block net url options env retryCount useAuth w =
     (Thrown, issued url options env retryCount useAuth w)"
  by (auto simp: try_block_def throws_before_fetch_def issued_def Let_def
                 writeDataPoint_throws_def split: option.splits)

lemma try_block_responded:
  "\<not> throws_before_fetch options env retryCount useAuth \<Longrightarrow> net (fetches w) = Resolves r \<Longrightarrow>
   status r \<noteq> 429 \<Longrightarrow>
   try_block net url options env retryCount useAuth w =
     (Responded r, observed r (issued url options env retryCount useAuth w))"
  by (auto simp: try_block_def throws_before_fetch_def issued_def observed_def Let_def
                 writeDataPoint_throws_def split: option.splits)

lemma try_block_throttled:
  "\<not> throws_before_fetch options env retryCount useAuth \<Longrightarrow> net (fetches w) = Resolves r \<Longrightarrow>
   status r = 429 \<Longrightarrow> body_text r \<noteq> None \<Longrightarrow>
   \<not> writeDataPoint_throws env ''gitlab_rate_limited_request'' [1, int retryCount] \<Longrightarrow>
   try_block net url options env retryCount useAuth w =
     (Throttled r, throttled env retryCount
                     (observed r (issued url options env retryCount useAuth w)))"
  by (cases "retryCount = 0")
     (auto simp: try_block_def throws_before_fetch_def issued_def observed_def throttled_def
                 Let_def writeDataPoint_throws_def split: option.splits)

text \<open>One unfolding of \<open>gitlabApiRequest\<close>, by the way its \<open>try\<close> block ends.\<close>

lemma step_responded:
  "try_block net url options env retryCount useAuth w = (Responded r, v) \<Longrightarrow>
   gitlabApiRequest net url options env retryCount useAuth w = (Some r, v)"
  by (subst gitlabApiRequest.simps) simp

lemma step_throttled_last:
  "try_block net url options env retryCount useAuth w = (Throttled r, v) \<Longrightarrow>
   \<not> retryCount < MAX_RETRIES \<Longrightarrow>
   gitlabApiRequest net url options env retryCount useAuth w = (Some r, v)"
  by (subst gitlabApiRequest.simps) simp

lemma step_throttled_retry:
  "try_block net url options env retryCount useAuth w = (Throttled r, v) \<Longrightarrow>
   retryCount < MAX_RETRIES \<Longrightarrow>
   gitlabApiRequest net url options env retryCount useAuth w =
     gitlabApiRequest net url options env (retryCount + 1) True (setTimeout (waitTime v) v)"
  by (subst gitlabApiRequest.simps) simp

lemma step_thrown_last:
  "try_block net url options env retryCount useAuth w = (Thrown, v) \<Longrightarrow>
   \<not> retryCount < MAX_RETRIES \<Longrightarrow>
   gitlabApiRequest net url options env retryCount useAuth w = (None, v)"
  by (subst gitlabApiRequest.simps) simp

lemma step_thrown_retry:
  "try_block net url options env retryCount useAuth w = (Thrown, v) \<Longrightarrow>
   retryCount < MAX_RETRIES \<Longrightarrow>
   gitlabApiRequest net url options env retryCount useAuth w =
     gitlabApiRequest net url options env (retryCount + 1) True (setTimeout (Some 2000) v)"
  by (subst gitlabApiRequest.simps) simp

text \<open>Every attempt that is retried hands over a state with the fetches it has issued.\<close>

lemma retry_state:
  assumes r: "retried (attempt_of net options env retryCount useAuth (fetches w))"
    and lt: "retryCount < MAX_RETRIES"
  shows "\<exists>w'. fetches w' = next_fetch options env retryCount useAuth (fetches w) \<and>
           gitlabApiRequest net url options env retryCount useAuth w =
           gitlabApiRequest net url options env (retryCount + 1) True w'"
proof -
  obtain a v where tb: "try_block net url options env retryCount useAuth w = (a, v)"
    by (cases "try_block net url options env retryCount useAuth w")
  have a: "attempt_of net options env retryCount useAuth (fetches w) = a"
    using try_block_attempt [of net url options env retryCount useAuth w] tb by simp
  have v: "fetches v = next_fetch options env retryCount useAuth (fetches w)"
    using try_block_fetches [of net url options env retryCount useAuth w] tb by simp
  show ?thesis
  proof (cases a)
    case Thrown
    with tb step_thrown_retry [of net url options env retryCount useAuth w v] lt v
    have "fetches (setTimeout (Some 2000) v) =
            next_fetch options env retryCount useAuth (fetches w) \<and>
          gitlabApiRequest net url options env retryCount useAuth w =
          gitlabApiRequest net url options env (retryCount + 1) True
            (setTimeout (Some 2000) v)"
      by simp
    then show ?thesis by blast
  next
    case (Throttled x)
    with tb step_throttled_retry [of net url options env retryCount useAuth w x v] lt v
    have "fetches (setTimeout (waitTime v) v) =
            next_fetch options env retryCount useAuth (fetches w) \<and>
          gitlabApiRequest net url options env retryCount useAuth w =
          gitlabApiRequest net url options env (retryCount + 1) True
            (setTimeout (waitTime v) v)"
      by simp
    then show ?thesis by blast
  next
    case (Responded x)
    with r a have False by (simp add: retried_def)
    then show ?thesis ..
  qed
qed

lemma final_result:
  assumes "\<not> retryCount < MAX_RETRIES \<or>
           \<not> retried (attempt_of net options env retryCount useAuth (fetches w))"
  shows "fst (gitlabApiRequest net url options env retryCount useAuth w) =
           (case attempt_of net options env retryCount useAuth (fetches w) of
              Thrown \<Rightarrow> None | Throttled r \<Rightarrow> Some r | Responded r \<Rightarrow> Some r)"
proof -
  obtain a v where tb: "try_block net url options env retryCount useAuth w = (a, v)"
    by (cases "try_block net url options env retryCount useAuth w")
  have a: "attempt_of net options env retryCount useAuth (fetches w) = a"
    using try_block_attempt [of net url options env retryCount useAuth w] tb by simp
  show ?thesis
  proof (cases a)
    case Thrown
    with assms a have "\<not> retryCount < MAX_RETRIES" by (simp add: retried_def)
    with tb Thrown step_thrown_last [of net url options env retryCount useAuth w v] a
    show ?thesis by simp
  next
    case (Throttled x)
    with assms a have "\<not> retryCount < MAX_RETRIES" by (simp add: retried_def)
    with tb Throttled step_throttled_last [of net url options env retryCount useAuth w x v] a
    show ?thesis by simp
  next
    case (Responded x)
    with tb step_responded [of net url options env retryCount useAuth w x v] a
    show ?thesis by simp
  qed
qed

text \<open>
  Moving the window of attempts by one: the rest of the run fails for good exactly
  when the run from this attempt on does.
\<close>

lemma shift_exhausted:
  assumes lt: "rc < M" and r0: "R (A 0)"
  shows "(\<exists>n. A (Suc n) = T \<and> M \<le> (rc + 1) + n \<and>
              (\<forall>i<n. (rc + 1) + i < M \<and> R (A (Suc i)))) \<longleftrightarrow>
         (\<exists>n. A n = T \<and> M \<le> rc + n \<and> (\<forall>i<n. rc + i < M \<and> R (A i)))"
    (is "?L \<longleftrightarrow> ?R")
proof
  assume ?L
  then obtain n where n: "A (Suc n) = T" "M \<le> (rc + 1) + n"
    "\<forall>i<n. (rc + 1) + i < M \<and> R (A (Suc i))" by blast
  have "\<forall>i<Suc n. rc + i < M \<and> R (A i)"
  proof (intro allI impI)
    fix i assume i: "i < Suc n"
    show "rc + i < M \<and> R (A i)"
    proof (cases i)
      case 0
      with lt r0 show ?thesis by simp
    next
      case (Suc j)
      with i have "j < n" by simp
      with n(3) have "(rc + 1) + j < M \<and> R (A (Suc j))" by blast
      with Suc show ?thesis by simp
    qed
  qed
  moreover have "M \<le> rc + Suc n" using n(2) by simp
  ultimately show ?R using n(1) by blast
next
  assume ?R
  then obtain n where n: "A n = T" "M \<le> rc + n" "\<forall>i<n. rc + i < M \<and> R (A i)" by blast
  from n(2) lt obtain m where m: "n = Suc m" by (cases n) auto
  have "\<forall>i<m. (rc + 1) + i < M \<and> R (A (Suc i))"
  proof (intro allI impI)
    fix i assume "i < m"
    then have "Suc i < n" using m by simp
    with n(3) have "rc + Suc i < M \<and> R (A (Suc i))" by blast
    then show "(rc + 1) + i < M \<and> R (A (Suc i))" by simp
  qed
  moreover have "A (Suc m) = T" using n(1) m by simp
  moreover have "M \<le> (rc + 1) + m" using n(2) m by simp
  ultimately show ?L by blast
qed

lemma stops_here:
  assumes "\<not> (rc::nat) < M \<or> \<not> R (A 0)"
  shows "(\<exists>n. A n = T \<and> M \<le> rc + n \<and> (\<forall>i<n. rc + i < M \<and> R (A i))) \<longleftrightarrow>
         (A 0 = T \<and> M \<le> rc)"
proof
  assume "\<exists>n. A n = T \<and> M \<le> rc + n \<and> (\<forall>i<n. rc + i < M \<and> R (A i))"
  then obtain n where n: "A n = T" "M \<le> rc + n" "\<forall>i<n. rc + i < M \<and> R (A i)" by blast
  have "n = 0"
  proof (cases n)
    case 0
    then show ?thesis by simp
  next
    case (Suc m)
    with n(3) have "rc + 0 < M \<and> R (A 0)" by blast
    with assms show ?thesis by simp
  qed
  with n show "A 0 = T \<and> M \<le> rc" by simp
next
  assume "A 0 = T \<and> M \<le> rc"
  then have "A 0 = T \<and> M \<le> rc + 0 \<and> (\<forall>i<0. rc + i < M \<and> R (A i))" by simp
  then show "\<exists>n. A n = T \<and> M \<le> rc + n \<and> (\<forall>i<n. rc + i < M \<and> R (A i))" by blast
qed

lemma null_iff:
  "fst (gitlabApiRequest net url options env retryCount useAuth w) = None \<longleftrightarrow>
   (\<exists>n. nth_attempt net options env retryCount useAuth (fetches w) n = Thrown \<and>
        MAX_RETRIES \<le> retryCount + n \<and>
        (\<forall>i<n. retryCount + i < MAX_RETRIES \<and>
               retried (nth_attempt net options env retryCount useAuth (fetches w) i)))"
proof (induction "MAX_RETRIES - retryCount" arbitrary: retryCount useAuth w)
  case 0
  then have ex: "\<not> retryCount < MAX_RETRIES" by simp
  let ?A = "nth_attempt net options env retryCount useAuth (fetches w)"
  have res: "fst (gitlabApiRequest net url options env retryCount useAuth w) =
      (case ?A 0 of Thrown \<Rightarrow> None | Throttled r \<Rightarrow> Some r | Responded r \<Rightarrow> Some r)"
    using final_result [of retryCount net options env useAuth w url] ex by simp
  have "(\<exists>n. ?A n = Thrown \<and> MAX_RETRIES \<le> retryCount + n \<and>
             (\<forall>i<n. retryCount + i < MAX_RETRIES \<and> retried (?A i))) \<longleftrightarrow>
        (?A 0 = Thrown \<and> MAX_RETRIES \<le> retryCount)"
    using ex by (intro stops_here) simp
  moreover have "fst (gitlabApiRequest net url options env retryCount useAuth w) = None \<longleftrightarrow>
        (?A 0 = Thrown \<and> MAX_RETRIES \<le> retryCount)"
    using res ex by (cases "?A 0") simp_all
  ultimately show ?case by simp
next
  case (Suc k)
  then have lt: "retryCount < MAX_RETRIES" and k: "k = MAX_RETRIES - (retryCount + 1)"
    by simp_all
  let ?A = "nth_attempt net options env retryCount useAuth (fetches w)"
  show ?case
  proof (cases "retried (?A 0)")
    case True
    then have "retried (attempt_of net options env retryCount useAuth (fetches w))" by simp
    from retry_state [OF this lt, of url] obtain w' where
      w': "fetches w' = next_fetch options env retryCount useAuth (fetches w)"
      "gitlabApiRequest net url options env retryCount useAuth w =
       gitlabApiRequest net url options env (retryCount + 1) True w'" by blast
    have A: "\<And>n. nth_attempt net options env (retryCount + 1) True (fetches w') n = ?A (Suc n)"
      using w'(1) by simp
    note ih = Suc.hyps(1) [OF k, where useAuth = True and w = w']
    have "fst (gitlabApiRequest net url options env retryCount useAuth w) = None \<longleftrightarrow>
          (\<exists>n. ?A (Suc n) = Thrown \<and> MAX_RETRIES \<le> (retryCount + 1) + n \<and>
               (\<forall>i<n. (retryCount + 1) + i < MAX_RETRIES \<and> retried (?A (Suc i))))"
      unfolding w'(2) ih A ..
    also have "\<dots> \<longleftrightarrow>
          (\<exists>n. ?A n = Thrown \<and> MAX_RETRIES \<le> retryCount + n \<and>
               (\<forall>i<n. retryCount + i < MAX_RETRIES \<and> retried (?A i)))"
      using lt True by (rule shift_exhausted)
    finally show ?thesis .
  next
    case False
    have res: "fst (gitlabApiRequest net url options env retryCount useAuth w) =
        (case ?A 0 of Thrown \<Rightarrow> None | Throttled r \<Rightarrow> Some r | Responded r \<Rightarrow> Some r)"
      using final_result [of retryCount net options env useAuth w url] False by simp
    from False obtain r where r: "?A 0 = Responded r"
      by (cases "?A 0") (simp_all add: retried_def)
    have "(\<exists>n. ?A n = Thrown \<and> MAX_RETRIES \<le> retryCount + n \<and>
               (\<forall>i<n. retryCount + i < MAX_RETRIES \<and> retried (?A i))) \<longleftrightarrow>
          (?A 0 = Thrown \<and> MAX_RETRIES \<le> retryCount)"
      using False by (intro stops_here) simp
    with res r show ?thesis by simp
  qed
qed

text \<open>One call issues at most \<open>MAX_RETRIES + 1 - retryCount\<close> fetches.\<close>

lemma fetches_bound:
  "fetches (snd (gitlabApiRequest net url options env retryCount useAuth w))
     \<le> fetches w + 1 + (MAX_RETRIES - retryCount)"
proof (induction "MAX_RETRIES - retryCount" arbitrary: retryCount useAuth w)
  case 0
  then have ex: "\<not> retryCount < MAX_RETRIES" by simp
  obtain a v where tb: "try_block net url options env retryCount useAuth w = (a, v)"
    by (cases "try_block net url options env retryCount useAuth w")
  have v: "fetches v \<le> Suc (fetches w)"
    using try_block_fetches [of net url options env retryCount useAuth w] tb
    by (simp add: next_fetch_def)
  have "snd (gitlabApiRequest net url options env retryCount useAuth w) = v"
    using tb ex step_thrown_last [of net url options env retryCount useAuth w v]
      step_throttled_last [of net url options env retryCount useAuth w _ v]
      step_responded [of net url options env retryCount useAuth w _ v]
    by (cases a) simp_all
  with v show ?case by simp
next
  case (Suc k)
  then have lt: "retryCount < MAX_RETRIES" and k: "k = MAX_RETRIES - (retryCount + 1)"
    by simp_all
  show ?case
  proof (cases "retried (attempt_of net options env retryCount useAuth (fetches w))")
    case True
    from retry_state [OF True lt, of url] obtain w' where
      w': "fetches w' = next_fetch options env retryCount useAuth (fetches w)"
      "gitlabApiRequest net url options env retryCount useAuth w =
       gitlabApiRequest net url options env (retryCount + 1) True w'" by blast
    have f: "fetches w' \<le> Suc (fetches w)" using w'(1) by (simp add: next_fetch_def)
    note ih = Suc.hyps(1) [OF k, where useAuth = True and w = w']
    show ?thesis unfolding w'(2) using ih f lt by arith
  next
    case False
    obtain a v where tb: "try_block net url options env retryCount useAuth w = (a, v)"
      by (cases "try_block net url options env retryCount useAuth w")
    have a: "attempt_of net options env retryCount useAuth (fetches w) = a"
      using try_block_attempt [of net url options env retryCount useAuth w] tb by simp
    with False obtain r where r: "a = Responded r" by (cases a) (simp_all add: retried_def)
    have v: "fetches v \<le> Suc (fetches w)"
      using try_block_fetches [of net url options env retryCount useAuth w] tb
      by (simp add: next_fetch_def)
    from tb r step_responded [of net url options env retryCount useAuth w r v] v
    show ?thesis by simp
  qed
qed

text \<open>
  A run of throttled responses: when nothing throws and every attempt that the budget
  allows is answered with a readable 429, the call returns the response to the last.
\<close>

lemma throttled_run:
  assumes "retryCount \<le> MAX_RETRIES"
    and "\<not> headers_throw options env useAuth" and "\<not> headers_throw options env True"
    and "\<forall>index doubles. \<not> writeDataPoint_throws env index doubles"
    and "\<forall>i \<le> MAX_RETRIES - retryCount.
           \<exists>r. net (fetches w + i) = Resolves r \<and> status r = 429 \<and> body_text r \<noteq> None"
  shows "\<exists>r. net (fetches w + (MAX_RETRIES - retryCount)) = Resolves r \<and>
             fst (gitlabApiRequest net url options env retryCount useAuth w) = Some r"
  using assms
proof (induction "MAX_RETRIES - retryCount" arbitrary: retryCount useAuth w)
  case 0
  then have ex: "\<not> retryCount < MAX_RETRIES" and z: "MAX_RETRIES - retryCount = 0" by simp_all
  from "0.prems"(5) z obtain r where
    r: "net (fetches w) = Resolves r" "status r = 429" "body_text r \<noteq> None" by auto
  have nt: "\<not> throws_before_fetch options env retryCount useAuth"
    using "0.prems"(2,4) by (simp add: throws_before_fetch_def)
  from try_block_throttled [where net = net and w = w and url = url, OF nt r] "0.prems"(4)
  have "try_block net url options env retryCount useAuth w =
     (Throttled r, throttled env retryCount
                     (observed r (issued url options env retryCount useAuth w)))" by simp
  from step_throttled_last [OF this ex] r(1) z show ?case by simp
next
  case (Suc k)
  then have lt: "retryCount < MAX_RETRIES" and k: "k = MAX_RETRIES - (retryCount + 1)"
    by simp_all
  from Suc.prems(5) obtain r where
    r: "net (fetches w) = Resolves r" "status r = 429" "body_text r \<noteq> None"
    by (metis add.right_neutral le0)
  have nt: "\<not> throws_before_fetch options env retryCount useAuth"
    using Suc.prems(2,4) by (simp add: throws_before_fetch_def)
  have a: "attempt_of net options env retryCount useAuth (fetches w) = Throttled r"
    using nt r Suc.prems(4) by (simp add: attempt_of_def)
  then have "retried (attempt_of net options env retryCount useAuth (fetches w))"
    by (simp add: retried_def)
  from retry_state [OF this lt, of url] obtain w' where
    w': "fetches w' = next_fetch options env retryCount useAuth (fetches w)"
    "gitlabApiRequest net url options env retryCount useAuth w =
     gitlabApiRequest net url options env (retryCount + 1) True w'" by blast
  have fw: "fetches w' = Suc (fetches w)" using w'(1) nt by (simp add: next_fetch_def)
  have all: "\<forall>i \<le> MAX_RETRIES - (retryCount + 1).
           \<exists>r. net (fetches w' + i) = Resolves r \<and> status r = 429 \<and> body_text r \<noteq> None"
  proof (intro allI impI)
    fix i assume "i \<le> MAX_RETRIES - (retryCount + 1)"
    with lt have "Suc i \<le> MAX_RETRIES - retryCount" by simp
    with Suc.prems(5)
    have "\<exists>r. net (fetches w + Suc i) = Resolves r \<and> status r = 429 \<and> body_text r \<noteq> None"
      by blast
    with fw show "\<exists>r. net (fetches w' + i) = Resolves r \<and> status r = 429 \<and> body_text r \<noteq> None"
      by simp
  qed
  have le: "retryCount + 1 \<le> MAX_RETRIES" using lt by simp
  have idx: "fetches w' + (MAX_RETRIES - (retryCount + 1)) =
             fetches w + (MAX_RETRIES - retryCount)" using fw lt by simp
  from Suc.hyps(1) [OF k le Suc.prems(3) Suc.prems(3) Suc.prems(4) all]
    w'(2) idx
  show ?case by simp
qed

text \<open>The inputs of the examples throw nothing before the fetch.\<close>

lemma no_options_no_throw [simp]: "\<not> headers_throw no_options (env_with_token ''t'') u"
  by (simp add: headers_throw_def no_options_def env_with_token_def truthy_def
                valid_header_value_def normalize_value_def http_whitespace_def)

lemma no_analytics_no_throw [simp]: "\<not> writeDataPoint_throws (env_with_token tok) index doubles"
  by (simp add: writeDataPoint_throws_def env_with_token_def)

lemma no_throw_before_fetch [simp]:
  "\<not> throws_before_fetch no_options (env_with_token ''t'') retryCount u"
  by (simp add: throws_before_fetch_def)

text \<open>
  C1, at the failing input. A caller asks for no authentication (\<open>useAuth = false\<close>,
  as \<open>fetchRawFile\<close> does by default) while a token is configured. The first attempt is
  sent without the token; it is throttled (first trace) or fails on the network (second
  trace); the retry is sent with the headers of \<open>useAuth = true\<close>, the
  \<open>PRIVATE-TOKEN\<close> header included. URL and options are those of the first attempt.
  The third trace is the same run started by \<open>fetchFileFromGitLab\<close> with
  \<open>useAuth = false\<close>, as the static-path probe calls it.
\<close>

theorem gitlabApiRequest_retry_drops_useAuth:
  "trace (snd (gitlabApiRequest
                 (net_of [Resolves (plain_response 429 []), Resolves (plain_response 200 [])])
                 ''u'' no_options (env_with_token ''secret'') 0 False (fresh 0))) =
     [SetTimeout (Some 1000),
      FetchCall ''u'' no_options (request_headers no_options (env_with_token ''secret'') False),
      SetTimeout (Some 60000),
      SetTimeout (Some 1000),
      FetchCall ''u'' no_options (request_headers no_options (env_with_token ''secret'') True)] \<and>
   trace (snd (gitlabApiRequest
                 (net_of [Rejects, Resolves (plain_response 200 [])])
                 ''u'' no_options (env_with_token ''secret'') 0 False (fresh 0))) =
     [SetTimeout (Some 1000),
      FetchCall ''u'' no_options (request_headers no_options (env_with_token ''secret'') False),
      SetTimeout (Some 2000),
      SetTimeout (Some 1000),
      FetchCall ''u'' no_options (request_headers no_options (env_with_token ''secret'') True)] \<and>
   trace (snd (fetchFileFromGitLab
                 (net_of [Resolves (plain_response 429 []), Resolves (plain_response 200 ''# Docs'')])
                 ''ns'' ''p'' ''main'' ''llms.txt'' (env_with_token ''secret'') False (fresh 0))) =
     [SetTimeout (Some 1000),
      FetchCall ''https://gitlab.com/ns/p/-/raw/main/llms.txt'' no_options
        (request_headers no_options (env_with_token ''secret'') False),
      SetTimeout (Some 60000),
      SetTimeout (Some 1000),
      FetchCall ''https://gitlab.com/ns/p/-/raw/main/llms.txt'' no_options
        (request_headers no_options (env_with_token ''secret'') True)] \<and>
   map_of (request_headers no_options (env_with_token ''secret'') False) ''PRIVATE-TOKEN'' = None \<and>
   map_of (request_headers no_options (env_with_token ''secret'') True) ''PRIVATE-TOKEN'' =
     Some ''secret''"
  by code_simp

text \<open>
  C4, as amended. When the response has status 429, its body can be read, the data
  point for it is written without an exception (or no analytics is bound) and no retry
  is left (\<open>retryCount \<ge> MAX_RETRIES\<close>), \<open>gitlabApiRequest\<close> returns that response
  itself, not \<open>null\<close>; and when nothing throws, a call that starts with
  \<open>retryCount = 0\<close> and is answered with a readable 429 at each of its
  \<open>MAX_RETRIES + 1\<close> attempts returns the response to the last one.
\<close>

theorem gitlabApiRequest_429_exhausted:
  "(MAX_RETRIES \<le> retryCount \<and> \<not> throws_before_fetch options env retryCount useAuth \<and>
    net (fetches w) = Resolves r \<and> status r = 429 \<and> body_text r \<noteq> None \<and>
    \<not> writeDataPoint_throws env ''gitlab_rate_limited_request'' [1, int retryCount] \<longrightarrow>
      gitlabApiRequest net url options env retryCount useAuth w =
        (Some r, throttled env retryCount
                   (observed r (issued url options env retryCount useAuth w)))) \<and>
   (\<not> headers_throw options env useAuth \<and> \<not> headers_throw options env True \<and>
    (\<forall>index doubles. \<not> writeDataPoint_throws env index doubles) \<and>
    (\<forall>i \<le> MAX_RETRIES.
       \<exists>r. net (fetches w + i) = Resolves r \<and> status r = 429 \<and> body_text r \<noteq> None) \<longrightarrow>
      (\<exists>r. net (fetches w + MAX_RETRIES) = Resolves r \<and> status r = 429 \<and>
           fst (gitlabApiRequest net url options env 0 useAuth w) = Some r))"
proof (intro conjI impI)
  assume a: "MAX_RETRIES \<le> retryCount \<and> \<not> throws_before_fetch options env retryCount useAuth \<and>
    net (fetches w) = Resolves r \<and> status r = 429 \<and> body_text r \<noteq> None \<and>
    \<not> writeDataPoint_throws env ''gitlab_rate_limited_request'' [1, int retryCount]"
  then have ex: "\<not> retryCount < MAX_RETRIES" by simp
  from a have "try_block net url options env retryCount useAuth w =
     (Throttled r, throttled env retryCount
                     (observed r (issued url options env retryCount useAuth w)))"
    using try_block_throttled [where net = net and w = w and r = r and url = url
            and options = options and env = env and retryCount = retryCount
            and useAuth = useAuth]
    by blast
  from step_throttled_last [OF this ex]
  show "gitlabApiRequest net url options env retryCount useAuth w =
        (Some r, throttled env retryCount
                   (observed r (issued url options env retryCount useAuth w)))" .
next
  assume a: "\<not> headers_throw options env useAuth \<and> \<not> headers_throw options env True \<and>
    (\<forall>index doubles. \<not> writeDataPoint_throws env index doubles) \<and>
    (\<forall>i \<le> MAX_RETRIES.
       \<exists>r. net (fetches w + i) = Resolves r \<and> status r = 429 \<and> body_text r \<noteq> None)"
  then have b: "\<forall>i \<le> MAX_RETRIES - 0.
       \<exists>r. net (fetches w + i) = Resolves r \<and> status r = 429 \<and> body_text r \<noteq> None"
    by simp
  have z: "(0::nat) \<le> MAX_RETRIES" by simp
  from a have h: "\<not> headers_throw options env useAuth" "\<not> headers_throw options env True"
    "\<forall>index doubles. \<not> writeDataPoint_throws env index doubles" by simp_all
  from throttled_run [where net = net and w = w and retryCount = 0 and url = url
         and options = options and env = env and useAuth = useAuth, OF z h b]
  obtain r where r: "net (fetches w + MAX_RETRIES) = Resolves r"
    "fst (gitlabApiRequest net url options env 0 useAuth w) = Some r" by auto
  from a r(1) have "status r = 429" by (metis fetch_outcome.inject le_refl)
  with r show "\<exists>r. net (fetches w + MAX_RETRIES) = Resolves r \<and> status r = 429 \<and>
           fst (gitlabApiRequest net url options env 0 useAuth w) = Some r" by blast
qed

theorem gitlabApiRequest_429_exhausted_witness:
  "fst (gitlabApiRequest (net_of [Resolves (plain_response 429 ''busy'')])
          ''u'' no_options (env_with_token ''t'') 3 True (fresh 0)) =
     Some (plain_response 429 ''busy'') \<and>
   fst (gitlabApiRequest
          (net_of [Resolves (plain_response 429 ''1''), Resolves (plain_response 429 ''2''),
                   Resolves (plain_response 429 ''3''), Resolves (plain_response 429 ''4'')])
          ''u'' no_options (env_with_token ''t'') 0 True (fresh 0)) =
     Some (plain_response 429 ''4'')"
proof
  let ?net = "net_of [Resolves (plain_response 429 ''busy'')]"
  have "MAX_RETRIES \<le> 3 \<and> \<not> throws_before_fetch no_options (env_with_token ''t'') 3 True \<and>
        ?net (fetches (fresh 0)) = Resolves (plain_response 429 ''busy'') \<and>
        status (plain_response 429 ''busy'') = 429 \<and>
        body_text (plain_response 429 ''busy'') \<noteq> None \<and>
        \<not> writeDataPoint_throws (env_with_token ''t'') ''gitlab_rate_limited_request'' [1, int 3]"
    by (simp add: MAX_RETRIES_def net_of_def fresh_def plain_response_def)
  with gitlabApiRequest_429_exhausted
         [of 3 no_options "env_with_token ''t''" True ?net "fresh 0"
             "plain_response 429 ''busy''" "''u''"]
  show "fst (gitlabApiRequest ?net ''u'' no_options (env_with_token ''t'') 3 True (fresh 0)) =
        Some (plain_response 429 ''busy'')" by simp
next
  let ?net = "net_of [Resolves (plain_response 429 ''1''), Resolves (plain_response 429 ''2''),
                      Resolves (plain_response 429 ''3''), Resolves (plain_response 429 ''4'')]"
  have all: "\<forall>i \<le> MAX_RETRIES. \<exists>r. ?net (fetches (fresh 0) + i) = Resolves r \<and> status r = 429 \<and>
                                    body_text r \<noteq> None"
    by (simp add: MAX_RETRIES_def net_of_def fresh_def plain_response_def nth_Cons'
                  le_Suc_eq numeral_3_eq_3)
  have last: "?net (fetches (fresh 0) + MAX_RETRIES) = Resolves (plain_response 429 ''4'')"
    by (simp add: MAX_RETRIES_def net_of_def fresh_def)
  have pre: "\<not> headers_throw no_options (env_with_token ''t'') True \<and>
             \<not> headers_throw no_options (env_with_token ''t'') True \<and>
             (\<forall>index doubles. \<not> writeDataPoint_throws (env_with_token ''t'') index doubles)"
    by simp
  from gitlabApiRequest_429_exhausted
         [of 0 no_options "env_with_token ''t''" True ?net "fresh 0" undefined "''u''"]
       all pre
  obtain r where "?net (fetches (fresh 0) + MAX_RETRIES) = Resolves r"
    "fst (gitlabApiRequest ?net ''u'' no_options (env_with_token ''t'') 0 True (fresh 0)) = Some r"
    by blast
  with last show "fst (gitlabApiRequest ?net ''u'' no_options (env_with_token ''t'') 0 True
                         (fresh 0)) = Some (plain_response 429 ''4'')" by simp
qed

text \<open>
  C4, as stated, fails: a 429 response whose body cannot be read makes
  \<open>await response.text()\<close> reject inside the \<open>try\<close> block; with no retry left the
  \<open>catch\<close> block returns \<open>null\<close>, not the response.
\<close>

theorem gitlabApiRequest_429_unreadable_counterexample:
  "fst (gitlabApiRequest
          (net_of [Resolves \<lparr>status = 429, resp_headers = Map.empty, body_text = None,
                             body_json = None\<rparr>])
          ''u'' no_options (env_with_token ''t'') 3 True (fresh 0)) = None"
proof -
  let ?r = "\<lparr>status = 429, resp_headers = Map.empty, body_text = None, body_json = None\<rparr>"
  have "attempt_of (net_of [Resolves ?r]) no_options (env_with_token ''t'') 3 True
          (fetches (fresh 0)) = Thrown"
    by (simp add: attempt_of_def net_of_def fresh_def)
  moreover have "\<not> (3::nat) < MAX_RETRIES" by (simp add: MAX_RETRIES_def)
  ultimately show ?thesis
    using final_result [of 3 "net_of [Resolves ?r]" no_options "env_with_token ''t''" True
                           "fresh 0" "''u''"]
    by simp
qed

text \<open>
  C5, as amended. \<open>gitlabApiRequest\<close> returns \<open>null\<close> exactly when an attempt ends in
  the \<open>catch\<close> block with no retry left, every attempt before it having been retried.
  An attempt ends in \<open>catch\<close> when the fetch rejects (the network failure), and also
  when the request headers cannot be built, when \<open>writeDataPoint\<close> throws, or when
  the body of a 429 response cannot be read. A network failure with retries remaining
  sets a timer of 2000 ms and retries with the counter incremented; a response with
  any status other than 429 is returned as it is, never as \<open>null\<close>; and one call issues
  at most \<open>MAX_RETRIES + 1 - retryCount\<close> fetches, so at most three retries from
  \<open>retryCount = 0\<close>.
\<close>

theorem gitlabApiRequest_null_iff_thrown:
  "(fst (gitlabApiRequest net url options env retryCount useAuth w) = None \<longleftrightarrow>
      (\<exists>n. nth_attempt net options env retryCount useAuth (fetches w) n = Thrown \<and>
           MAX_RETRIES \<le> retryCount + n \<and>
           (\<forall>i<n. retryCount + i < MAX_RETRIES \<and>
                  retried (nth_attempt net options env retryCount useAuth (fetches w) i)))) \<and>
   (\<not> throws_before_fetch options env retryCount useAuth \<and> net (fetches w) = Rejects \<and>
    retryCount < MAX_RETRIES \<longrightarrow>
      gitlabApiRequest net url options env retryCount useAuth w =
        gitlabApiRequest net url options env (retryCount + 1) True
          (setTimeout (Some 2000) (issued url options env retryCount useAuth w))) \<and>
   (\<forall>r. \<not> throws_before_fetch options env retryCount useAuth \<and>
        net (fetches w) = Resolves r \<and> status r \<noteq> 429 \<longrightarrow>
      gitlabApiRequest net url options env retryCount useAuth w =
        (Some r, observed r (issued url options env retryCount useAuth w))) \<and>
   fetches (snd (gitlabApiRequest net url options env retryCount useAuth w))
     \<le> fetches w + 1 + (MAX_RETRIES - retryCount)"
proof (intro conjI allI impI)
  show "fst (gitlabApiRequest net url options env retryCount useAuth w) = None \<longleftrightarrow>
      (\<exists>n. nth_attempt net options env retryCount useAuth (fetches w) n = Thrown \<and>
           MAX_RETRIES \<le> retryCount + n \<and>
           (\<forall>i<n. retryCount + i < MAX_RETRIES \<and>
                  retried (nth_attempt net options env retryCount useAuth (fetches w) i)))"
    by (rule null_iff)
next
  assume a: "\<not> throws_before_fetch options env retryCount useAuth \<and> net (fetches w) = Rejects \<and>
    retryCount < MAX_RETRIES"
  then have "try_block net url options env retryCount useAuth w =
               (Thrown, issued url options env retryCount useAuth w)"
    using try_block_rejects [where net = net and w = w and url = url and options = options
            and env = env and retryCount = retryCount and useAuth = useAuth]
    by blast
  from step_thrown_retry [OF this] a
  show "gitlabApiRequest net url options env retryCount useAuth w =
        gitlabApiRequest net url options env (retryCount + 1) True
          (setTimeout (Some 2000) (issued url options env retryCount useAuth w))" by blast
next
  fix r
  assume a: "\<not> throws_before_fetch options env retryCount useAuth \<and>
        net (fetches w) = Resolves r \<and> status r \<noteq> 429"
  then have "try_block net url options env retryCount useAuth w =
               (Responded r, observed r (issued url options env retryCount useAuth w))"
    using try_block_responded [where net = net and w = w and url = url and options = options
            and env = env and retryCount = retryCount and useAuth = useAuth and r = r]
    by blast
  from step_responded [OF this]
  show "gitlabApiRequest net url options env retryCount useAuth w =
        (Some r, observed r (issued url options env retryCount useAuth w))" .
next
  show "fetches (snd (gitlabApiRequest net url options env retryCount useAuth w))
     \<le> fetches w + 1 + (MAX_RETRIES - retryCount)"
    by (rule fetches_bound)
qed

theorem gitlabApiRequest_null_iff_thrown_witness:
  "fst (gitlabApiRequest (net_of []) ''u'' no_options (env_with_token ''t'') 0 True (fresh 0)) =
     None \<and>
   gitlabApiRequest (net_of []) ''u'' no_options (env_with_token ''t'') 0 True (fresh 0) =
     gitlabApiRequest (net_of []) ''u'' no_options (env_with_token ''t'') 1 True
       (setTimeout (Some 2000) (issued ''u'' no_options (env_with_token ''t'') 0 True (fresh 0))) \<and>
   fst (gitlabApiRequest (net_of [Resolves (plain_response 404 ''Not Found'')])
          ''u'' no_options (env_with_token ''t'') 0 True (fresh 0)) =
     Some (plain_response 404 ''Not Found'')"
proof -
  let ?env = "env_with_token ''t''"
  have at: "\<And>c u f. attempt_of (net_of []) no_options ?env c u f = Thrown"
    by (simp add: attempt_of_def net_of_def)
  have nth: "\<And>n c u f. nth_attempt (net_of []) no_options ?env c u f n = Thrown"
  proof -
    fix n c u f
    show "nth_attempt (net_of []) no_options ?env c u f n = Thrown"
      by (induction n arbitrary: c u f) (simp_all add: at)
  qed
  have ex: "nth_attempt (net_of []) no_options ?env 0 True (fetches (fresh 0)) 3 = Thrown \<and>
        MAX_RETRIES \<le> 0 + 3 \<and>
        (\<forall>i<3. 0 + i < MAX_RETRIES \<and>
               retried (nth_attempt (net_of []) no_options ?env 0 True (fetches (fresh 0)) i))"
    by (simp add: nth MAX_RETRIES_def retried_def)
  have rej: "\<not> throws_before_fetch no_options ?env 0 True \<and>
             net_of [] (fetches (fresh 0)) = Rejects \<and> 0 < MAX_RETRIES"
    by (simp add: net_of_def MAX_RETRIES_def)
  have nf: "\<not> throws_before_fetch no_options ?env 0 True \<and>
            net_of [Resolves (plain_response 404 ''Not Found'')] (fetches (fresh 0)) =
              Resolves (plain_response 404 ''Not Found'') \<and>
            status (plain_response 404 ''Not Found'') \<noteq> 429"
    by (simp add: net_of_def fresh_def plain_response_def)
  note a = gitlabApiRequest_null_iff_thrown
             [of "net_of []" "''u''" no_options ?env 0 True "fresh 0"]
  note b = gitlabApiRequest_null_iff_thrown
             [of "net_of [Resolves (plain_response 404 ''Not Found'')]" "''u''" no_options
                 ?env 0 True "fresh 0"]
  have 1: "fst (gitlabApiRequest (net_of []) ''u'' no_options ?env 0 True (fresh 0)) = None"
    using a ex by blast
  have 2: "gitlabApiRequest (net_of []) ''u'' no_options ?env 0 True (fresh 0) =
     gitlabApiRequest (net_of []) ''u'' no_options ?env 1 True
       (setTimeout (Some 2000) (issued ''u'' no_options ?env 0 True (fresh 0)))"
    using a rej by simp
  have 3: "fst (gitlabApiRequest (net_of [Resolves (plain_response 404 ''Not Found'')])
          ''u'' no_options ?env 0 True (fresh 0)) =
     Some (plain_response 404 ''Not Found'')"
    using b nf by simp
  from 1 2 3 show ?thesis by blast
qed

text \<open>
  C5, as stated, fails: with a header name in the options that is no HTTP token,
  \<open>new Headers\<close> throws in every attempt; the call returns \<open>null\<close> after its retries
  although no fetch was issued and no network failure occurred (the network here would
  have answered 200).
\<close>

theorem gitlabApiRequest_null_without_fetch_counterexample:
  "fst (gitlabApiRequest (net_of [Resolves (plain_response 200 ''ok'')]) ''u''
          \<lparr>method_opt = None, headers_opt = [(''bad name'', ''x'')]\<rparr>
          (env_with_token ''t'') 0 True (fresh 0)) = None \<and>
   trace (snd (gitlabApiRequest (net_of [Resolves (plain_response 200 ''ok'')]) ''u''
                 \<lparr>method_opt = None, headers_opt = [(''bad name'', ''x'')]\<rparr>
                 (env_with_token ''t'') 0 True (fresh 0))) =
     [SetTimeout (Some 1000), SetTimeout (Some 2000), SetTimeout (Some 1000),
      SetTimeout (Some 2000), SetTimeout (Some 1000), SetTimeout (Some 2000),
      SetTimeout (Some 1000)] \<and>
   fetches (snd (gitlabApiRequest (net_of [Resolves (plain_response 200 ''ok'')]) ''u''
                   \<lparr>method_opt = None, headers_opt = [(''bad name'', ''x'')]\<rparr>
                   (env_with_token ''t'') 0 True (fresh 0))) = 0"
proof -
  let ?g = "gitlabApiRequest (net_of [Resolves (plain_response 200 ''ok'')]) ''u''
          \<lparr>method_opt = None, headers_opt = [(''bad name'', ''x'')]\<rparr>
          (env_with_token ''t'') 0 True (fresh 0)"
  have "case fst ?g of None \<Rightarrow> True | Some r \<Rightarrow> False" by code_simp
  then have 1: "fst ?g = None" by (cases "fst ?g") simp_all
  have 2: "trace (snd ?g) =
     [SetTimeout (Some 1000), SetTimeout (Some 2000), SetTimeout (Some 1000),
      SetTimeout (Some 2000), SetTimeout (Some 1000), SetTimeout (Some 2000),
      SetTimeout (Some 1000)]" by code_simp
  have 3: "fetches (snd ?g) = 0" by code_simp
  from 1 2 3 show ?thesis by blast
qed

section \<open>Search by file name\<close>

lemma split_not_Nil [simp]: "split d s \<noteq> []"
  by (induction s) (auto split: list.splits)

lemma split_single: "d \<notin> set s \<Longrightarrow> split d s = [s]"
  by (induction s) auto

lemma split_more: "d \<in> set s \<Longrightarrow> \<exists>x y ys. split d s = x # y # ys"
proof (induction s)
  case Nil
  then show ?case by simp
next
  case (Cons c cs)
  show ?case
  proof (cases "c = d")
    case True
    obtain y ys where "split d cs = y # ys" by (cases "split d cs") simp_all
    with True show ?thesis by simp
  next
    case False
    with Cons.prems have "d \<in> set cs" by simp
    from Cons.IH [OF this] obtain x y ys where "split d cs = x # y # ys" by blast
    with False show ?thesis by simp
  qed
qed

lemma basename_Cons:
  "basename (c # cs) =
     (if CHR ''/'' \<in> set cs then basename cs
      else if c = CHR ''/'' then cs else c # cs)"
proof (cases "CHR ''/'' \<in> set cs")
  case True
  then have "CHR ''/'' \<in> set (rev cs)" by simp
  then have "takeWhile (\<lambda>c. c \<noteq> CHR ''/'') (rev cs @ [c]) =
             takeWhile (\<lambda>c. c \<noteq> CHR ''/'') (rev cs)"
    by (rule takeWhile_append1) simp
  with True show ?thesis by (simp add: basename_def)
next
  case False
  then have "takeWhile (\<lambda>c. c \<noteq> CHR ''/'') (rev cs @ [c]) =
             rev cs @ takeWhile (\<lambda>c. c \<noteq> CHR ''/'') [c]"
    by (intro takeWhile_append2) auto
  with False show ?thesis by (simp add: basename_def)
qed

text \<open>The last piece of a path split at \<open>/\<close> is what follows its last \<open>/\<close>.\<close>

lemma last_split: "last (split CHR ''/'' s) = basename s"
proof (induction s)
  case Nil
  then show ?case by (simp add: basename_def)
next
  case (Cons c cs)
  show ?case
  proof (cases "CHR ''/'' \<in> set cs")
    case True
    from split_more [OF True] obtain x y ys where s: "split CHR ''/'' cs = x # y # ys"
      by blast
    with True Cons.IH show ?thesis by (simp add: basename_Cons)
  next
    case False
    from split_single [OF False] show ?thesis by (simp add: basename_Cons False)
  qed
qed

lemma itemFilename_eq:
  "itemFilename item = Some name \<longleftrightarrow>
     (case item_filename item of
        Some f \<Rightarrow>
          if f \<noteq> [] then f = name
          else (case item_path item of None \<Rightarrow> False | Some pth \<Rightarrow> basename pth = name)
      | None \<Rightarrow> (case item_path item of None \<Rightarrow> False | Some pth \<Rightarrow> basename pth = name))"
  by (simp add: itemFilename_def or_else_def truthy_def pop_def last_split
           split: option.splits)

text \<open>
  C10, as amended. Whatever \<open>searchFileByName\<close> returns is built from the raw hits
  whose name is equal to the name asked for, where the name of a hit is its
  \<open>filename\<close> when that is a non-empty string and otherwise what follows the last
  \<open>/\<close> of its \<open>path\<close>: \<open>items\<close> is the image of exactly those hits, in their order,
  and \<open>total_count\<close> is their number, so a hit with another name gives no item. The
  path reported for an item is \<open>item.path || item.filename\<close>.
\<close>

theorem searchFileByName_exact_matches:
  assumes "searchFileByName net filename ns p env w = (Inr (Some res), w')"
  shows "\<exists>r results.
           fst (gitlabApiRequest net
                  (getGitLabApiBaseUrl env @ ''/projects/'' @ encodeProjectPath ns p @
                   ''/search?scope=blobs&search='' @ encodeURIComponent filename)
                  no_options env 0 True w) = Some r \<and>
           ok r \<and> body_json r = Some results \<and>
           items res =
             map (to_hit env ns p)
               (filter
                  (\<lambda>item. case item_filename item of
                             Some f \<Rightarrow>
                               if f \<noteq> [] then f = filename
                               else (case item_path item of
                                       None \<Rightarrow> False
                                     | Some pth \<Rightarrow> basename pth = filename)
                           | None \<Rightarrow>
                               (case item_path item of
                                  None \<Rightarrow> False
                                | Some pth \<Rightarrow> basename pth = filename))
                  results) \<and>
           total_count res = length (items res) \<and>
           (\<forall>item. hit_path (to_hit env ns p item) =
                     (case item_path item of
                        Some pth \<Rightarrow> if pth \<noteq> [] then Some pth else item_filename item
                      | None \<Rightarrow> item_filename item))"
proof -
  let ?url = "getGitLabApiBaseUrl env @ ''/projects/'' @ encodeProjectPath ns p @
              ''/search?scope=blobs&search='' @ encodeURIComponent filename"
  obtain resp v where g: "gitlabApiRequest net ?url no_options env 0 True w = (resp, v)"
    by (cases "gitlabApiRequest net ?url no_options env 0 True w")
  from assms g obtain r where r1: "resp = Some r" and r2: "ok r"
    by (cases resp) (auto simp: searchFileByName_def Let_def split: if_splits)
  from assms g r1 r2 obtain results where r3: "body_json r = Some results"
    by (cases "body_json r") (auto simp: searchFileByName_def Let_def)
  from assms g r1 r2 r3 have r4:
    "res = \<lparr>total_count = length (filter (\<lambda>item. itemFilename item = Some filename) results),
            items = map (to_hit env ns p)
                      (filter (\<lambda>item. itemFilename item = Some filename) results)\<rparr>"
    by (simp add: searchFileByName_def Let_def)
  have r: "fst (gitlabApiRequest net ?url no_options env 0 True w) = Some r"
    using g r1 by simp
  have f: "filter (\<lambda>item. itemFilename item = Some filename) results =
           filter
                  (\<lambda>item. case item_filename item of
                             Some f \<Rightarrow>
                               if f \<noteq> [] then f = filename
                               else (case item_path item of
                                       None \<Rightarrow> False
                                     | Some pth \<Rightarrow> basename pth = filename)
                           | None \<Rightarrow>
                               (case item_path item of
                                  None \<Rightarrow> False
                                | Some pth \<Rightarrow> basename pth = filename))
                  results"
    by (simp only: itemFilename_eq)
  have h: "hit_path (to_hit env ns p item) =
             (case item_path item of
                Some pth \<Rightarrow> if pth \<noteq> [] then Some pth else item_filename item
              | None \<Rightarrow> item_filename item)" for item
    by (simp add: to_hit_def or_else_def truthy_def split: option.splits)
  have a: "items res = map (to_hit env ns p)
                         (filter (\<lambda>item. itemFilename item = Some filename) results)"
    using r4 by simp
  have b: "total_count res = length (items res)" using r4 by simp
  have c: "\<forall>item. hit_path (to_hit env ns p item) =
                     (case item_path item of
                        Some pth \<Rightarrow> if pth \<noteq> [] then Some pth else item_filename item
                      | None \<Rightarrow> item_filename item)"
    using h by blast
  show ?thesis
    apply (rule exI [of _ r])
    apply (rule exI [of _ results])
    apply (intro conjI)
         apply (rule r)
        apply (rule r2)
       apply (rule r3)
      apply (rule a [unfolded f])
     apply (rule b)
    apply (rule c)
    done
qed

theorem searchFileByName_exact_matches_witness:
  "fst (searchFileByName
          (net_of [Resolves \<lparr>status = 200, resp_headers = Map.empty, body_text = Some [],
                             body_json = Some
                               [\<lparr>item_filename = None, item_path = Some ''docs/llms.txt'',
                                 item_project_id = Some 7, item_ref = None\<rparr>,
                                \<lparr>item_filename = Some ''llms.txt.bak'',
                                 item_path = Some ''llms.txt.bak'',
                                 item_project_id = Some 7, item_ref = Some ''main''\<rparr>,
                                \<lparr>item_filename = Some ''llms.txt'', item_path = Some ''llms.txt'',
                                 item_project_id = Some 7, item_ref = Some ''dev''\<rparr>]\<rparr>])
          ''llms.txt'' ''ns'' ''p'' (env_with_token ''t'') (fresh 0)) =
     Inr (Some \<lparr>total_count = 2,
                items = [\<lparr>hit_path = Some ''docs/llms.txt'',
                          html_url = Some ''https://gitlab.com/ns/p/-/blob/main/docs/llms.txt'',
                          full_name = ''ns/p''\<rparr>,
                         \<lparr>hit_path = Some ''llms.txt'',
                          html_url = Some ''https://gitlab.com/ns/p/-/blob/dev/llms.txt'',
                          full_name = ''ns/p''\<rparr>]\<rparr>) \<and>
   [\<lparr>hit_path = Some ''docs/llms.txt'',
     html_url = Some ''https://gitlab.com/ns/p/-/blob/main/docs/llms.txt'',
     full_name = ''ns/p''\<rparr>,
    \<lparr>hit_path = Some ''llms.txt'',
     html_url = Some ''https://gitlab.com/ns/p/-/blob/dev/llms.txt'',
     full_name = ''ns/p''\<rparr>] =
   map (to_hit (env_with_token ''t'') ''ns'' ''p'')
     (filter
        (\<lambda>item. case item_filename item of
                   Some f \<Rightarrow>
                     if f \<noteq> [] then f = ''llms.txt''
                     else (case item_path item of
                             None \<Rightarrow> False
                           | Some pth \<Rightarrow> basename pth = ''llms.txt'')
                 | None \<Rightarrow>
                     (case item_path item of
                        None \<Rightarrow> False
                      | Some pth \<Rightarrow> basename pth = ''llms.txt''))
        [\<lparr>item_filename = None, item_path = Some ''docs/llms.txt'',
          item_project_id = Some 7, item_ref = None\<rparr>,
         \<lparr>item_filename = Some ''llms.txt.bak'', item_path = Some ''llms.txt.bak'',
          item_project_id = Some 7, item_ref = Some ''main''\<rparr>,
         \<lparr>item_filename = Some ''llms.txt'', item_path = Some ''llms.txt'',
          item_project_id = Some 7, item_ref = Some ''dev''\<rparr>])"
proof -
  let ?raw = "[\<lparr>item_filename = None, item_path = Some ''docs/llms.txt'',
                item_project_id = Some 7, item_ref = None\<rparr>,
               \<lparr>item_filename = Some ''llms.txt.bak'', item_path = Some ''llms.txt.bak'',
                item_project_id = Some 7, item_ref = Some ''main''\<rparr>,
               \<lparr>item_filename = Some ''llms.txt'', item_path = Some ''llms.txt'',
                item_project_id = Some 7, item_ref = Some ''dev''\<rparr>]"
  let ?r0 = "\<lparr>status = 200, resp_headers = Map.empty, body_text = Some [],
              body_json = Some ?raw\<rparr>"
  let ?net = "net_of [Resolves ?r0]"
  let ?env = "env_with_token ''t''"
  let ?res = "\<lparr>total_count = 2,
               items = [\<lparr>hit_path = Some ''docs/llms.txt'',
                         html_url = Some ''https://gitlab.com/ns/p/-/blob/main/docs/llms.txt'',
                         full_name = ''ns/p''\<rparr>,
                        \<lparr>hit_path = Some ''llms.txt'',
                         html_url = Some ''https://gitlab.com/ns/p/-/blob/dev/llms.txt'',
                         full_name = ''ns/p''\<rparr>]\<rparr>"
  let ?url = "getGitLabApiBaseUrl ?env @ ''/projects/'' @ encodeProjectPath ''ns'' ''p'' @
              ''/search?scope=blobs&search='' @ encodeURIComponent ''llms.txt''"
  have n0: "?net (fetches (fresh 0)) = Resolves ?r0" by (simp add: net_of_def fresh_def)
  have s0: "status ?r0 \<noteq> 429" by simp
  have nt: "\<not> throws_before_fetch no_options ?env 0 True" by simp
  have g: "fst (gitlabApiRequest ?net ?url no_options ?env 0 True (fresh 0)) = Some ?r0"
    using step_responded [OF try_block_responded [where net = "?net" and w = "fresh 0"
            and r = "?r0" and url = "?url", OF nt n0 s0]]
    by simp
  have s: "fst (searchFileByName ?net ''llms.txt'' ''ns'' ''p'' ?env (fresh 0)) =
           Inr (Some ?res)"
    by code_simp
  then have eq: "searchFileByName ?net ''llms.txt'' ''ns'' ''p'' ?env (fresh 0) =
           (Inr (Some ?res),
            snd (searchFileByName ?net ''llms.txt'' ''ns'' ''p'' ?env (fresh 0)))"
    by (simp add: prod_eq_iff)
  from searchFileByName_exact_matches [OF eq] obtain r results where
    r: "fst (gitlabApiRequest ?net ?url no_options ?env 0 True (fresh 0)) = Some r"
       "body_json r = Some results"
       "items ?res =
          map (to_hit ?env ''ns'' ''p'')
            (filter
               (\<lambda>item. case item_filename item of
                          Some f \<Rightarrow>
                            if f \<noteq> [] then f = ''llms.txt''
                            else (case item_path item of
                                    None \<Rightarrow> False
                                  | Some pth \<Rightarrow> basename pth = ''llms.txt'')
                        | None \<Rightarrow>
                            (case item_path item of
                               None \<Rightarrow> False
                             | Some pth \<Rightarrow> basename pth = ''llms.txt''))
               results)"
    by blast
  from r(1) g have "r = ?r0" by simp
  with r(2) have res: "results = ?raw" by simp
  have it: "items ?res =
              [\<lparr>hit_path = Some ''docs/llms.txt'',
                html_url = Some ''https://gitlab.com/ns/p/-/blob/main/docs/llms.txt'',
                full_name = ''ns/p''\<rparr>,
               \<lparr>hit_path = Some ''llms.txt'',
                html_url = Some ''https://gitlab.com/ns/p/-/blob/dev/llms.txt'',
                full_name = ''ns/p''\<rparr>]"
    by simp
  show ?thesis
    apply (rule conjI)
     apply (rule s)
    apply (rule r(3) [unfolded res it])
    done
qed

text \<open>
  C10, as stated, fails in its first sentence: a raw hit with \<open>filename\<close>
  \<open>llms.txt\<close> and \<open>path\<close> \<open>sub/other.md\<close> passes the filter on its \<open>filename\<close>, and
  the item returned for it carries the path \<open>sub/other.md\<close>, whose base name is not the
  name asked for.
\<close>

theorem searchFileByName_path_counterexample:
  "fst (searchFileByName
          (net_of [Resolves \<lparr>status = 200, resp_headers = Map.empty, body_text = Some [],
                             body_json = Some
                               [\<lparr>item_filename = Some ''llms.txt'',
                                 item_path = Some ''sub/other.md'',
                                 item_project_id = Some 7, item_ref = Some ''main''\<rparr>]\<rparr>])
          ''llms.txt'' ''ns'' ''p'' (env_with_token ''t'') (fresh 0)) =
     Inr (Some \<lparr>total_count = 1,
                items = [\<lparr>hit_path = Some ''sub/other.md'',
                          html_url = Some ''https://gitlab.com/ns/p/-/blob/main/sub/other.md'',
                          full_name = ''ns/p''\<rparr>]\<rparr>) \<and>
   basename ''sub/other.md'' = ''other.md''"
  by code_simp

section \<open>The static-path probe\<close>

lemma find_result_probe:
  "find_result (probe cs ns p b locs) loc =
     (if loc \<in> set locs \<and> fetchFileFromGitLab_res cs ns p b loc \<noteq> None
      then Some \<lparr>pr_content = fetchFileFromGitLab_res cs ns p b loc,
                 pr_location = loc, pr_branch = b\<rparr>
      else None)"
  by (induction locs) (auto simp: find_result_def probe_def)

lemma scanLocations_probe:
  "set ls \<subseteq> set locs \<Longrightarrow>
   scanLocations (probe cs ns p b locs) ls =
     map_option (\<lambda>location. \<lparr>pr_content = fetchFileFromGitLab_res cs ns p b location,
                              pr_location = location, pr_branch = b\<rparr>)
       (List.find (\<lambda>location. fetchFileFromGitLab_res cs ns p b location \<noteq> None) ls)"
  by (induction ls) (auto simp: find_result_probe)

lemma find_in_set: "List.find P xs = Some x \<Longrightarrow> x \<in> set xs \<and> P x"
  by (induction xs) (auto split: if_splits)

text \<open>With one result for each location, \<open>find\<close> does not depend on the order of the results.\<close>

lemma find_result_order:
  assumes uniq: "\<forall>r \<in> set rs. \<forall>r' \<in> set rs. pr_location r = pr_location r' \<longrightarrow> r = r'"
    and same: "set rs' = set rs"
  shows "find_result rs' loc = find_result rs loc"
proof (cases "find_result rs loc")
  case None
  then have "\<not> (\<exists>r. r \<in> set rs \<and> pr_location r = loc \<and> pr_content r \<noteq> None)"
    by (simp add: find_result_def find_None_iff)
  with same have "find_result rs' loc = None"
    by (simp add: find_result_def find_None_iff)
  with None show ?thesis by simp
next
  case (Some x)
  then have x: "x \<in> set rs" "pr_location x = loc" "pr_content x \<noteq> None"
    using find_in_set [of "\<lambda>r. pr_location r = loc \<and> pr_content r \<noteq> None" rs x]
    by (simp_all add: find_result_def)
  with same have "\<exists>r. r \<in> set rs' \<and> pr_location r = loc \<and> pr_content r \<noteq> None" by blast
  then obtain y where y: "find_result rs' loc = Some y"
    by (cases "find_result rs' loc") (auto simp: find_result_def find_None_iff)
  then have "y \<in> set rs'" "pr_location y = loc"
    using find_in_set [of "\<lambda>r. pr_location r = loc \<and> pr_content r \<noteq> None" rs' y]
    by (simp_all add: find_result_def)
  with x same uniq have "y = x" by blast
  with y Some show ?thesis by simp
qed

lemma scanLocations_order:
  assumes "\<forall>r \<in> set rs. \<forall>r' \<in> set rs. pr_location r = pr_location r' \<longrightarrow> r = r'"
    and "set rs' = set rs"
  shows "scanLocations rs' ls = scanLocations rs ls"
  by (induction ls) (simp_all add: find_result_order [OF assms] split: option.splits)

lemma probe_one_per_location:
  "\<forall>r \<in> set (probe cs ns p b locs). \<forall>r' \<in> set (probe cs ns p b locs).
     pr_location r = pr_location r' \<longrightarrow> r = r'"
  by (auto simp: probe_def)

text \<open>
  What the loop computes: the first entry of \<open>possibleLocations\<close> whose fetched
  content is not \<open>null\<close>, read off the gathered results by scanning the candidate list
  in order, so the same for every order in which the results are held.
\<close>

lemma scanLocations_first_found:
  "scanLocations (probe cs ns p b possibleLocations) possibleLocations =
     map_option (\<lambda>location. \<lparr>pr_content = fetchFileFromGitLab_res cs ns p b location,
                              pr_location = location, pr_branch = b\<rparr>)
       (List.find (\<lambda>location. fetchFileFromGitLab_res cs ns p b location \<noteq> None)
          possibleLocations) \<and>
   (\<forall>results'. set results' = set (probe cs ns p b possibleLocations) \<longrightarrow>
      scanLocations results' possibleLocations =
      scanLocations (probe cs ns p b possibleLocations) possibleLocations)"
proof (intro conjI allI impI)
  show "scanLocations (probe cs ns p b possibleLocations) possibleLocations =
     map_option (\<lambda>location. \<lparr>pr_content = fetchFileFromGitLab_res cs ns p b location,
                              pr_location = location, pr_branch = b\<rparr>)
       (List.find (\<lambda>location. fetchFileFromGitLab_res cs ns p b location \<noteq> None)
          possibleLocations)"
    by (rule scanLocations_probe) simp
next
  fix results'
  assume "set results' = set (probe cs ns p b possibleLocations)"
  then show "scanLocations results' possibleLocations =
             scanLocations (probe cs ns p b possibleLocations) possibleLocations"
    by (rule scanLocations_order [OF probe_one_per_location])
qed

text \<open>
  C2, at the failing input. \<open>docs/docs/llms.txt\<close> exists and is empty, \<open>llms.txt\<close>
  has content, and nothing else is found. The first entry whose fetched content is
  non-empty is \<open>llms.txt\<close>; the loop, which tests \<open>r.content !== null\<close>, selects
  \<open>docs/docs/llms.txt\<close> and stops. The checks that follow (\<open>if (!content)\<close>) take
  the empty string for nothing found, the fallbacks find nothing, and the resolution
  ends with \<open>fileUsed\<close> \<open>llms.txt\<close> and the content \<open>No documentation found.\<close>
  while the documentation in \<open>llms.txt\<close> is never used.
\<close>

theorem fetchDocumentation_empty_static_file:
  "map_option pr_location
     (scanLocations (probe empty_first_file ''ns'' ''p'' ''main'' possibleLocations)
        possibleLocations) = Some ''docs/docs/llms.txt'' \<and>
   spec_first_nonempty (probe empty_first_file ''ns'' ''p'' ''main'' possibleLocations)
     possibleLocations = Some ''llms.txt'' \<and>
   fst (fetchDocumentation empty_first_file (env_with_token ''t'') (gitlab_repo ''ns'' ''p'')
          (empty_store 0)) =
     \<lparr>fileUsed = ''llms.txt'', content = [Text ''No documentation found.'']\<rparr>"
  by code_simp

section \<open>The resolver\<close>

lemma calls_called [simp]: "calls (called c w) = calls w @ [c]"
  by (simp add: called_def)

lemma content_cache_called [simp]: "content_cache (called c w) = content_cache w"
  by (simp add: called_def)

lemma clock_called [simp]: "clock (called c w) = clock w"
  by (simp add: called_def)

lemma new_calls_append [simp]: "calls w' = calls w @ ys \<Longrightarrow> new_calls w w' = ys"
  by (simp add: new_calls_def)

lemma quiet_refl [simp]: "quiet w w"
  by (simp add: quiet_def)

lemma quiet_called:
  "\<not> cache_write c \<Longrightarrow> \<not> dispatch c \<Longrightarrow> quiet w v \<Longrightarrow> quiet w (called c v)"
  by (auto simp: quiet_def)

lemma quiet_trans: "quiet w v \<Longrightarrow> quiet v u \<Longrightarrow> quiet w u"
  by (auto simp: quiet_def)

lemma subdomainBranch_quiet: "quiet w (snd (subdomainBranch cs repoData (l, w)))"
  by (simp add: subdomainBranch_def Let_def quiet_called split: option.splits)

lemma gitlabBranch_quiet: "quiet w (snd (gitlabBranch cs env ns p (l, w)))"
  by (simp add: gitlabBranch_def Let_def possibleLocations_def quiet_called
           split: option.splits prod.splits)

lemma cascade_quiet: "quiet w (snd (cascade cs env repoData w))"
  by (simp add: cascade_def subdomainBranch_quiet gitlabBranch_quiet)

lemma subdomainBranch_locals:
  "fst (subdomainBranch cs repoData (l, w)) = fst (subdomainBranch cs repoData (l, v))"
  by (simp add: subdomainBranch_def Let_def split: option.splits)

lemma gitlabBranch_locals:
  "fst (gitlabBranch cs env ns p (l, w)) = fst (gitlabBranch cs env ns p (l, v))"
  by (simp add: gitlabBranch_def Let_def split: option.splits prod.splits)

lemma cascade_locals: "fst (cascade cs env repoData w) = fst (cascade cs env repoData v)"
  using subdomainBranch_locals gitlabBranch_locals by (simp add: cascade_def)

text \<open>A resolution writes the cache at the key of its own, non-empty, names only.\<close>

lemma fetchDocumentation_writes_own_key:
  assumes "content_cache (snd (fetchDocumentation cs env repoData w)) k \<noteq> content_cache w k"
  shows "truthy (namespace repoData) \<and> truthy (project repoData) \<and>
         k = (the (namespace repoData), the (project repoData))"
proof -
  let ?both = "truthy (namespace repoData) \<and> truthy (project repoData)"
  let ?ns = "the (namespace repoData)"
  let ?p = "the (project repoData)"
  let ?w0 = "if ?both then called (GetCachedFetchDocResult ?ns ?p) w else w"
  obtain l w1 where c: "cascade cs env repoData ?w0 = (l, w1)"
    by (cases "cascade cs env repoData ?w0")
  have "quiet ?w0 w1" using cascade_quiet [of ?w0 cs env repoData] c by simp
  then have w1: "content_cache w1 = content_cache w" by (simp add: quiet_def)
  show ?thesis
    using assms c w1
    by (auto simp: fetchDocumentation_def Let_def cacheFetchDocResult_def
                   enqueueDocumentationProcessing_def
             split: option.splits if_splits)
qed

lemma enqueue_state:
  "content_cache (enqueueDocumentationProcessing ns p c f dp db env w) = content_cache w \<and>
   (\<exists>ys. calls (enqueueDocumentationProcessing ns p c f dp db env w) = calls w @ ys \<and>
         filter cache_write ys = [] \<and> filter upstream ys = [])"
  by (simp add: enqueueDocumentationProcessing_def split: option.splits)

text \<open>
  C3. When the content cache holds a live entry for the namespace and project of the
  request, \<open>fetchDocumentation\<close> returns the value of that entry; the only call it
  makes is the cache lookup (no call upstream, nothing sent to the queue, no cache
  write), and the cache is unchanged. A second resolution at any time \<open>t\<close> before the
  entry expires, whatever the collaborators would answer, returns the same value and
  again makes no call upstream. The names are non-empty: the cache is read, and
  written, under \<open>namespace && project\<close> only.
\<close>

theorem fetchDocumentation_cache_hit:
  assumes "namespace repoData = Some ns" and "project repoData = Some p"
    and "ns \<noteq> []" and "p \<noteq> []"
    and "content_cache w (ns, p) = Some e" and "clock w < expiresAt e"
    and "t < expiresAt e"
  shows "fetchDocumentation cs env repoData w =
           (entry_value e, called (GetCachedFetchDocResult ns p) w) \<and>
         new_calls w (snd (fetchDocumentation cs env repoData w)) =
           [GetCachedFetchDocResult ns p] \<and>
         filter upstream (new_calls w (snd (fetchDocumentation cs env repoData w))) = [] \<and>
         filter dispatch (new_calls w (snd (fetchDocumentation cs env repoData w))) = [] \<and>
         filter cache_write (new_calls w (snd (fetchDocumentation cs env repoData w))) = [] \<and>
         content_cache (snd (fetchDocumentation cs env repoData w)) = content_cache w \<and>
         fetchDocumentation cs' env' repoData
           ((snd (fetchDocumentation cs env repoData w))\<lparr>clock := t\<rparr>) =
           (entry_value e,
            called (GetCachedFetchDocResult ns p)
              ((called (GetCachedFetchDocResult ns p) w)\<lparr>clock := t\<rparr>))"
proof -
  have hit: "\<And>cs env v. content_cache v (ns, p) = Some e \<Longrightarrow> clock v < expiresAt e \<Longrightarrow>
      fetchDocumentation cs env repoData v =
        (entry_value e, called (GetCachedFetchDocResult ns p) v)"
    using assms(1-4)
    by (simp add: fetchDocumentation_def Let_def truthy_def getCachedFetchDocResult_def)
  have first: "fetchDocumentation cs env repoData w =
           (entry_value e, called (GetCachedFetchDocResult ns p) w)"
    using hit [OF assms(5,6)] .
  have second: "fetchDocumentation cs' env' repoData
           ((called (GetCachedFetchDocResult ns p) w)\<lparr>clock := t\<rparr>) =
           (entry_value e,
            called (GetCachedFetchDocResult ns p)
              ((called (GetCachedFetchDocResult ns p) w)\<lparr>clock := t\<rparr>))"
    using assms(5,7) by (intro hit) simp_all
  show ?thesis using second by (simp add: first new_calls_def)
qed

theorem fetchDocumentation_cache_hit_witness:
  "fetchDocumentation nothing_found (env_with_token ''t'') (gitlab_repo ''ns'' ''p'')
     \<lparr>content_cache =
        Map.empty((''ns'', ''p'') \<mapsto>
          \<lparr>entry_value = \<lparr>fileUsed = ''llms.txt'', content = [Text ''# Docs'']\<rparr>,
           expiresAt = 1800000\<rparr>),
      clock = 1000, calls = []\<rparr> =
   (\<lparr>fileUsed = ''llms.txt'', content = [Text ''# Docs'']\<rparr>,
    \<lparr>content_cache =
        Map.empty((''ns'', ''p'') \<mapsto>
          \<lparr>entry_value = \<lparr>fileUsed = ''llms.txt'', content = [Text ''# Docs'']\<rparr>,
           expiresAt = 1800000\<rparr>),
      clock = 1000, calls = [GetCachedFetchDocResult ''ns'' ''p'']\<rparr>)"
proof -
  let ?e = "\<lparr>entry_value = \<lparr>fileUsed = ''llms.txt'', content = [Text ''# Docs'']\<rparr>,
             expiresAt = 1800000\<rparr>"
  let ?w = "\<lparr>content_cache = Map.empty((''ns'', ''p'') \<mapsto> ?e), clock = 1000, calls = []\<rparr>"
  have h: "namespace (gitlab_repo ''ns'' ''p'') = Some ''ns''"
    "project (gitlab_repo ''ns'' ''p'') = Some ''p''" "''ns'' \<noteq> []" "''p'' \<noteq> []"
    "content_cache ?w (''ns'', ''p'') = Some ?e" "clock ?w < expiresAt ?e"
    "(2000::int) < expiresAt ?e"
    by (simp_all add: gitlab_repo_def)
  from fetchDocumentation_cache_hit [OF h, of nothing_found "env_with_token ''t''"]
  show ?thesis by (simp add: called_def)
qed

text \<open>
  C8. For a GitLab repository with no live cache entry, when none of the static paths
  exists, the search for \<open>llms.txt\<close> finds nothing, the blob store has no entry and
  the search for a README finds nothing, \<open>fetchDocumentation\<close> returns a result, with
  \<open>fileUsed\<close> still \<open>unknown\<close> and the one content item \<open>No documentation found.\<close>
  Nothing is thrown on this path: \<open>getRepoBranch\<close>, \<open>searchGitLabRepo\<close>,
  \<open>fetchFileFromR2\<close> and \<open>enqueueDocumentationProcessing\<close> catch their own
  failures, and \<open>fetchDocumentation\<close> is a total function of what they return.
\<close>

theorem fetchDocumentation_exhausted:
  assumes "urlType repoData = Gitlab"
    and "namespace repoData = Some ns" and "project repoData = Some p"
    and "ns \<noteq> []" and "p \<noteq> []"
    and "getCachedFetchDocResult ns p w = None"
    and "\<forall>location \<in> set possibleLocations.
           fetchFileFromGitLab_res cs ns p (getRepoBranch_res cs ns p) location = None"
    and "searchGitLabRepo_res cs ns p ''llms.txt'' (getRepoBranch_res cs ns p) = None"
    and "fetchFileFromR2 ns p ''llms.txt'' env = None"
    and "searchGitLabRepo_res cs ns p ''README+path:/'' (getRepoBranch_res cs ns p) = None"
  shows "fst (fetchDocumentation cs env repoData w) =
           \<lparr>fileUsed = ''unknown'', content = [Text ''No documentation found.'']\<rparr>"
proof -
  have scan: "scanLocations (probe cs ns p (getRepoBranch_res cs ns p) possibleLocations)
                possibleLocations = None"
    using assms(7) by (simp add: possibleLocations_def probe_def find_result_def)
  have l: "fst (gitlabBranch cs env ns p (initial_locals, v)) =
             initial_locals\<lparr>l_docsBranch := getRepoBranch_res cs ns p\<rparr>" for v
  proof (cases "getRepoBranch_res cs ns p = []")
    case True
    with assms(8,9,10) scan show ?thesis
      by (simp add: gitlabBranch_def Let_def truthy_def initial_locals_def)
  next
    case False
    with assms(8,9,10) scan show ?thesis
      by (simp add: gitlabBranch_def Let_def truthy_def initial_locals_def)
  qed
  have c: "fst (cascade cs env repoData v) =
             initial_locals\<lparr>l_docsBranch := getRepoBranch_res cs ns p\<rparr>" for v
    using assms(1-5) by (simp add: cascade_def truthy_def l)
  obtain l w1 where
    cw: "cascade cs env repoData (called (GetCachedFetchDocResult ns p) w) = (l, w1)"
    by (cases "cascade cs env repoData (called (GetCachedFetchDocResult ns p) w)")
  have "l = fst (cascade cs env repoData (called (GetCachedFetchDocResult ns p) w))"
    using cw by simp
  then have l': "l = initial_locals\<lparr>l_docsBranch := getRepoBranch_res cs ns p\<rparr>"
    using c by simp
  show ?thesis
    using assms(2-6) cw
    by (simp add: fetchDocumentation_def Let_def truthy_def l' initial_locals_def
                  NO_DOCUMENTATION_def)
qed

theorem fetchDocumentation_exhausted_witness:
  "fst (fetchDocumentation nothing_found (env_with_token ''t'') (gitlab_repo ''ns'' ''p'')
          (empty_store 0)) =
     \<lparr>fileUsed = ''unknown'', content = [Text ''No documentation found.'']\<rparr>"
proof -
  have h: "urlType (gitlab_repo ''ns'' ''p'') = Gitlab"
    "namespace (gitlab_repo ''ns'' ''p'') = Some ''ns''"
    "project (gitlab_repo ''ns'' ''p'') = Some ''p''" "''ns'' \<noteq> []" "''p'' \<noteq> []"
    "getCachedFetchDocResult ''ns'' ''p'' (empty_store 0) = None"
    "\<forall>location \<in> set possibleLocations.
       fetchFileFromGitLab_res nothing_found ''ns'' ''p''
         (getRepoBranch_res nothing_found ''ns'' ''p'') location = None"
    "searchGitLabRepo_res nothing_found ''ns'' ''p'' ''llms.txt''
       (getRepoBranch_res nothing_found ''ns'' ''p'') = None"
    "fetchFileFromR2 ''ns'' ''p'' ''llms.txt'' (env_with_token ''t'') = None"
    "searchGitLabRepo_res nothing_found ''ns'' ''p'' ''README+path:/''
       (getRepoBranch_res nothing_found ''ns'' ''p'') = None"
    by (simp_all add: gitlab_repo_def getCachedFetchDocResult_def empty_store_def
                      nothing_found_def fetchFileFromR2_def env_with_token_def)
  from fetchDocumentation_exhausted [OF h] show ?thesis .
qed

text \<open>
  C9. When the cascade ends with empty content (\<open>null\<close> or the empty string),
  \<open>fetchDocumentation\<close> makes no call to \<open>cacheFetchDocResult\<close> and the content cache
  is left as it was: the write is reached on the path with non-empty content only.
\<close>

theorem fetchDocumentation_no_cache_write:
  assumes "\<not> truthy (l_content (fst (cascade cs env repoData w)))"
  shows "filter cache_write (new_calls w (snd (fetchDocumentation cs env repoData w))) = [] \<and>
         content_cache (snd (fetchDocumentation cs env repoData w)) = content_cache w"
proof -
  let ?both = "truthy (namespace repoData) \<and> truthy (project repoData)"
  let ?ns = "the (namespace repoData)"
  let ?p = "the (project repoData)"
  let ?w0 = "if ?both then called (GetCachedFetchDocResult ?ns ?p) w else w"
  have w0: "content_cache ?w0 = content_cache w"
    "\<exists>ys. calls ?w0 = calls w @ ys \<and> filter cache_write ys = []"
    by simp_all
  show ?thesis
  proof (cases "if ?both then getCachedFetchDocResult ?ns ?p w else None")
    case (Some cached)
    then have "snd (fetchDocumentation cs env repoData w) = ?w0"
      by (simp add: fetchDocumentation_def Let_def)
    with w0 show ?thesis by auto
  next
    case None
    obtain l w1 where c: "cascade cs env repoData ?w0 = (l, w1)"
      by (cases "cascade cs env repoData ?w0")
    have "l = fst (cascade cs env repoData w)"
      using c cascade_locals [of cs env repoData ?w0 w] by simp
    with assms have empty: "\<not> truthy (l_content l)" by simp
    have q: "quiet ?w0 w1" using cascade_quiet [of ?w0 cs env repoData] c by simp
    let ?w2 = "if ?both
               then enqueueDocumentationProcessing ?ns ?p (l_content l) (l_fileUsed l)
                      (l_docsPath l) (l_docsBranch l) env w1
               else w1"
    have w2: "content_cache ?w2 = content_cache w1"
      "\<exists>ys. calls ?w2 = calls w1 @ ys \<and> filter cache_write ys = []"
      using enqueue_state [of ?ns ?p "l_content l" "l_fileUsed l" "l_docsPath l"
                              "l_docsBranch l" env w1]
      by auto
    have s: "snd (fetchDocumentation cs env repoData w) = ?w2"
      using None c empty by (simp add: fetchDocumentation_def Let_def)
    have cc: "content_cache ?w2 = content_cache w"
      using w0(1) w2(1) q by (simp add: quiet_def)
    from q obtain ys1 where ys1: "calls w1 = calls ?w0 @ ys1" "filter cache_write ys1 = []"
      by (auto simp: quiet_def)
    from w0(2) obtain ys0 where ys0: "calls ?w0 = calls w @ ys0" "filter cache_write ys0 = []"
      by blast
    from w2(2) obtain ys2 where ys2: "calls ?w2 = calls w1 @ ys2" "filter cache_write ys2 = []"
      by blast
    have "calls ?w2 = calls w @ (ys0 @ ys1 @ ys2)" using ys0(1) ys1(1) ys2(1) by simp
    then have "new_calls w ?w2 = ys0 @ ys1 @ ys2" by (rule new_calls_append)
    then have "filter cache_write (new_calls w ?w2) = []"
      using ys0(2) ys1(2) ys2(2) by simp
    with cc show ?thesis unfolding s by blast
  qed
qed

theorem fetchDocumentation_no_cache_write_witness:
  "\<not> truthy (l_content (fst (cascade nothing_found (env_with_token ''t'')
                                (gitlab_repo ''ns'' ''p'') (empty_store 0)))) \<and>
   filter cache_write
     (new_calls (empty_store 0)
        (snd (fetchDocumentation nothing_found (env_with_token ''t'')
                (gitlab_repo ''ns'' ''p'') (empty_store 0)))) = [] \<and>
   content_cache (snd (fetchDocumentation nothing_found (env_with_token ''t'')
                         (gitlab_repo ''ns'' ''p'') (empty_store 0))) =
     content_cache (empty_store 0)"
proof -
  have h: "\<not> truthy (l_content (fst (cascade nothing_found (env_with_token ''t'')
                                (gitlab_repo ''ns'' ''p'') (empty_store 0))))"
    by code_simp
  from fetchDocumentation_no_cache_write [OF h] h show ?thesis by blast
qed

end
